theory Spec2Isabelle
  imports Complex_Main
begin

section \<open>Numbers\<close>

text \<open>
  The coordinates, sizes and scale factors stored in a floor plan are finite numbers and
  are modelled as \<^typ>\<open>real\<close>: rounding of IEEE doubles is not modelled.  Where the
  code can produce a non-finite number from finite inputs (the bounding-box accumulators
  that start at \<open>Infinity\<close> and \<open>-Infinity\<close>, a division by a variable that
  may be zero) the result has type \<open>jsnum\<close>, with the IEEE rules for infinities and
  \<open>NaN\<close>.  The model has a single zero; a zero divisor is read as \<open>+0\<close>.
\<close>

datatype jsnum = Num real | PInf | NInf | NaN

fun jneg :: "jsnum \<Rightarrow> jsnum" where
  "jneg (Num a) = Num (- a)"
| "jneg PInf = NInf"
| "jneg NInf = PInf"
| "jneg NaN = NaN"

fun jadd :: "jsnum \<Rightarrow> jsnum \<Rightarrow> jsnum" where
  "jadd NaN _ = NaN"
| "jadd _ NaN = NaN"
| "jadd (Num a) (Num b) = Num (a + b)"
| "jadd PInf NInf = NaN"
| "jadd NInf PInf = NaN"
| "jadd PInf _ = PInf"
| "jadd NInf _ = NInf"
| "jadd (Num a) PInf = PInf"
| "jadd (Num a) NInf = NInf"

definition jsub :: "jsnum \<Rightarrow> jsnum \<Rightarrow> jsnum" where
  "jsub a b = jadd a (jneg b)"

text \<open>The sign of a product with an infinite factor; a zero finite factor gives \<open>NaN\<close>.\<close>

definition jinf_times :: "bool \<Rightarrow> real \<Rightarrow> jsnum" where
  "jinf_times positive b =
     (if b = 0 then NaN else if (0 < b) = positive then PInf else NInf)"

fun jmul :: "jsnum \<Rightarrow> jsnum \<Rightarrow> jsnum" where
  "jmul NaN _ = NaN"
| "jmul _ NaN = NaN"
| "jmul (Num a) (Num b) = Num (a * b)"
| "jmul PInf (Num b) = jinf_times True b"
| "jmul NInf (Num b) = jinf_times False b"
| "jmul (Num a) PInf = jinf_times True a"
| "jmul (Num a) NInf = jinf_times False a"
| "jmul PInf PInf = PInf"
| "jmul NInf NInf = PInf"
| "jmul PInf NInf = NInf"
| "jmul NInf PInf = NInf"

fun jdiv :: "jsnum \<Rightarrow> jsnum \<Rightarrow> jsnum" where
  "jdiv NaN _ = NaN"
| "jdiv _ NaN = NaN"
| "jdiv (Num a) (Num b) =
     (if b \<noteq> 0 then Num (a / b)
      else if a = 0 then NaN else if 0 < a then PInf else NInf)"
| "jdiv (Num a) PInf = Num 0"
| "jdiv (Num a) NInf = Num 0"
| "jdiv PInf (Num b) = (if 0 \<le> b then PInf else NInf)"
| "jdiv NInf (Num b) = (if 0 \<le> b then NInf else PInf)"
| "jdiv PInf _ = NaN"
| "jdiv NInf _ = NaN"

text \<open>\<open>Math.min\<close> and \<open>Math.max\<close> of two arguments.\<close>

fun jmin :: "jsnum \<Rightarrow> jsnum \<Rightarrow> jsnum" where
  "jmin NaN _ = NaN"
| "jmin _ NaN = NaN"
| "jmin NInf _ = NInf"
| "jmin _ NInf = NInf"
| "jmin PInf b = b"
| "jmin a PInf = a"
| "jmin (Num a) (Num b) = Num (min a b)"

fun jmax :: "jsnum \<Rightarrow> jsnum \<Rightarrow> jsnum" where
  "jmax NaN _ = NaN"
| "jmax _ NaN = NaN"
| "jmax PInf _ = PInf"
| "jmax _ PInf = PInf"
| "jmax NInf b = b"
| "jmax a NInf = a"
| "jmax (Num a) (Num b) = Num (max a b)"

text \<open>\<open>Math.round\<close>: the nearest integer, a tie going to the larger one.\<close>

fun jround :: "jsnum \<Rightarrow> jsnum" where
  "jround (Num a) = Num (of_int \<lfloor>a + 1 / 2\<rfloor>)"
| "jround PInf = PInf"
| "jround NInf = NInf"
| "jround NaN = NaN"

text \<open>
  \<open>Math.atan2\<close> on finite arguments (with one zero, \<open>atan2 0 x\<close> for negative
  \<open>x\<close> is \<open>pi\<close>).
\<close>

definition atan2 :: "real \<Rightarrow> real \<Rightarrow> real" where
  "atan2 dy dx =
     (if 0 < dx then arctan (dy / dx)
      else if dx < 0 then (if 0 \<le> dy then arctan (dy / dx) + pi else arctan (dy / dx) - pi)
      else if 0 < dy then pi / 2
      else if dy < 0 then - (pi / 2)
      else 0)"

section \<open>Data model (floorplan-types.ts)\<close>

text \<open>
  Field names carry the name of their interface as a prefix, since several interfaces
  share the names \<open>id\<close>, \<open>position\<close>, \<open>angle\<close>, \<open>width\<close> and \<open>height\<close>;
  \<open>px\<close> and \<open>py\<close> are the fields \<open>x\<close> and \<open>y\<close> of \<open>Point\<close>.  An optional
  field is an \<open>option\<close>.
\<close>

record Point =
  px :: real
  py :: real

record Wall =
  wall_id :: string
  wall_start :: Point
  wall_end :: Point
  wall_thickness :: real
  wall_height :: real
  wall_texture :: "string option"

record Room =
  room_id :: string
  room_name :: string
  room_points :: "Point list"
  room_color :: string
  room_floorTexture :: "string option"
  room_wallTexture :: "string option"

record Door =
  door_id :: string
  door_position :: Point
  door_angle :: real
  door_width :: real
  door_wallId :: "string option"

record Window =
  window_id :: string
  window_position :: Point
  window_angle :: real
  window_width :: real
  window_height :: real
  window_wallId :: "string option"

datatype CabinetType = Cab_base | Cab_wall | Cab_tall | Cab_corner | Cab_island

record Cabinet =
  cabinet_id :: string
  cabinet_type :: CabinetType
  cabinet_position :: Point
  cabinet_angle :: real
  cabinet_width :: real
  cabinet_depth :: real
  cabinet_height :: real
  cabinet_color :: string

record Model3D =
  model_id :: string
  model_name :: string
  model_position :: Point
  model_angle :: real
  model_scale :: real
  model_height :: real
  model_modelUrl :: string

record PhotoReference =
  photo_id :: string
  photo_name :: string
  photo_url :: string
  photo_position :: Point
  photo_width :: real
  photo_height :: real
  photo_opacity :: real
  photo_locked :: bool

datatype Unit = Meters | Feet | Inches

record ScaleCalibration =
  cal_point1 :: Point
  cal_point2 :: Point
  cal_realWorldDistance :: real
  cal_unit :: Unit

record Measurement =
  meas_id :: string
  meas_start :: Point
  meas_end :: Point
  meas_label :: "string option"
  meas_visible :: bool

text \<open>
  The interface declares \<open>createdAt\<close>, \<open>updatedAt\<close> and \<open>showMeasurements\<close>
  mandatory; they are options here because the editor builds a metadata object by
  spreading a possibly absent one, which leaves them undefined.
\<close>

record Metadata =
  meta_createdAt :: "string option"
  meta_updatedAt :: "string option"
  meta_scale :: real
  meta_unit :: Unit
  meta_showMeasurements :: "bool option"

record FloorPlan =
  fp_id :: string
  fp_name :: string
  walls :: "Wall list"
  rooms :: "Room list"
  doors :: "Door list"
  windows :: "Window list"
  cabinets :: "Cabinet list"
  models3D :: "Model3D list"
  photos :: "PhotoReference list"
  measurements :: "Measurement list"
  scaleCalibration :: "ScaleCalibration option"
  metadata :: "Metadata option"

datatype ToolType =
  Tool_select | Tool_wall | Tool_room | Tool_door | Tool_window | Tool_cabinet
| Tool_delete | Tool_measure | Tool_model3d | Tool_photo

section \<open>Geometry kernel and unit conversion (floorplan-utils)\<close>

definition distance :: "Point \<Rightarrow> Point \<Rightarrow> real" where
  "distance p1 p2 = sqrt ((px p2 - px p1) ^ 2 + (py p2 - py p1) ^ 2)"

definition pointToLineDistance :: "Point \<Rightarrow> Point \<Rightarrow> Point \<Rightarrow> real" where
  "pointToLineDistance point lineStart lineEnd =
     (let A = px point - px lineStart;
          B = py point - py lineStart;
          C = px lineEnd - px lineStart;
          D = py lineEnd - py lineStart;
          dot = A * C + B * D;
          lenSq = C * C + D * D;
          param = (if lenSq \<noteq> 0 then dot / lenSq else - 1);
          xx = (if param < 0 then px lineStart
                else if 1 < param then px lineEnd
                else px lineStart + param * C);
          yy = (if param < 0 then py lineStart
                else if 1 < param then py lineEnd
                else py lineStart + param * D);
          dx = px point - xx;
          dy = py point - yy
      in sqrt (dx * dx + dy * dy))"

text \<open>
  The result of \<open>snapToGrid\<close> is a \<open>Point\<close> whose coordinates may be non-finite
  (a zero \<open>gridSize\<close> gives \<open>NaN\<close>).  The function has no error path.
\<close>

record NumPoint =
  nx :: jsnum
  ny :: jsnum

definition snapToGrid :: "Point \<Rightarrow> real \<Rightarrow> NumPoint" where
  "snapToGrid point gridSize =
     \<lparr> nx = jmul (jround (jdiv (Num (px point)) (Num gridSize))) (Num gridSize),
       ny = jmul (jround (jdiv (Num (py point)) (Num gridSize))) (Num gridSize) \<rparr>"

text \<open>
  \<open>isPointInPolygon\<close>: the loop \<open>for (i = 0, j = n - 1; i < n; j = i++)\<close> carries
  \<open>j\<close> and \<open>inside\<close>; the second conjunct of \<open>intersect\<close> is only evaluated when
  the first holds, and then \<open>yj \<noteq> yi\<close>.
\<close>

definition pip_step :: "Point \<Rightarrow> Point list \<Rightarrow> nat \<Rightarrow> nat \<times> bool \<Rightarrow> nat \<times> bool" where
  "pip_step point polygon i st =
     (let j = fst st; inside = snd st;
          xi = px (polygon ! i); yi = py (polygon ! i);
          xj = px (polygon ! j); yj = py (polygon ! j);
          intersect = ((py point < yi) \<noteq> (py point < yj)
            \<and> px point < (xj - xi) * (py point - yi) / (yj - yi) + xi)
      in (i, if intersect then \<not> inside else inside))"

definition isPointInPolygon :: "Point \<Rightarrow> Point list \<Rightarrow> bool" where
  "isPointInPolygon point polygon =
     snd (fold (pip_step point polygon) [0..<length polygon] (length polygon - 1, False))"

definition convertPixelsToRealWorld :: "real \<Rightarrow> real \<Rightarrow> Unit \<Rightarrow> jsnum" where
  "convertPixelsToRealWorld pixels scale unit =
     (let meters = jdiv (Num pixels) (Num scale)
      in case unit of
           Feet \<Rightarrow> jmul meters (Num 3.28084)
         | Inches \<Rightarrow> jmul meters (Num 39.3701)
         | Meters \<Rightarrow> meters)"

definition convertRealWorldToPixels :: "real \<Rightarrow> real \<Rightarrow> Unit \<Rightarrow> real" where
  "convertRealWorldToPixels realWorld scale unit =
     (let meters = (case unit of
                      Feet \<Rightarrow> realWorld / 3.28084
                    | Inches \<Rightarrow> realWorld / 39.3701
                    | Meters \<Rightarrow> realWorld)
      in meters * scale)"

section \<open>Scene descriptors and the 2D-to-3D projection (floorplan-3d-converter.ts)\<close>

text \<open>
  The renderer's objects are modelled by their constructor arguments.  A shape is the list
  of path commands issued on it; a material records the options passed to
  \<open>MeshStandardMaterial\<close> (an option that is not passed keeps the library's default:
  no colour given, front side, opaque).
\<close>

datatype PathCommand = MoveTo jsnum jsnum | LineTo jsnum jsnum | ClosePath

datatype Geometry =
  BoxGeometry real real real
| ShapeGeometry "PathCommand list"
| CylinderGeometry real real real nat

datatype Colour = ColorHex nat | ColorString string

datatype Wrapping = ClampToEdgeWrapping | RepeatWrapping

datatype Side = FrontSide | DoubleSide

record Texture =
  tex_url :: string
  tex_wrapS :: Wrapping
  tex_wrapT :: Wrapping
  tex_repeat :: "real \<times> real"

record Material =
  mat_map :: "Texture option"
  mat_color :: "Colour option"
  mat_roughness :: real
  mat_metalness :: real
  mat_side :: Side
  mat_transparent :: bool
  mat_opacity :: real

datatype MeshType =
  Mesh_wall | Mesh_floor | Mesh_door | Mesh_window | Mesh_ceiling | Mesh_cabinet | Mesh_model3d

record Mesh =
  mesh_geometry :: Geometry
  mesh_material :: Material
  mesh_position :: "jsnum \<times> jsnum \<times> jsnum"
  mesh_rotation :: "(real \<times> real \<times> real) option"
  mesh_type :: MeshType
  mesh_id :: string
  mesh_modelUrl :: "string option"

record Bounds =
  minX :: jsnum
  maxX :: jsnum
  minY :: jsnum
  maxY :: jsnum

record FloorPlan3DData =
  meshes :: "Mesh list"
  bounds :: Bounds

text \<open>\<open>floorPlan.metadata?.scale || 20\<close>: an absent metadata or a zero scale gives 20.\<close>

definition scaleOrDefault :: "FloorPlan \<Rightarrow> real" where
  "scaleOrDefault floorPlan =
     (case metadata floorPlan of
        None \<Rightarrow> 20
      | Some m \<Rightarrow> if meta_scale m = 0 then 20 else meta_scale m)"

definition unitOrDefault :: "FloorPlan \<Rightarrow> Unit" where
  "unitOrDefault floorPlan =
     (case metadata floorPlan of None \<Rightarrow> Meters | Some m \<Rightarrow> meta_unit m)"

text \<open>A string used as a condition is false when absent or empty.\<close>

definition truthy :: "string option \<Rightarrow> bool" where
  "truthy s = (case s of None \<Rightarrow> False | Some t \<Rightarrow> t \<noteq> [])"

definition initialBounds :: Bounds where
  "initialBounds = \<lparr> minX = PInf, maxX = NInf, minY = PInf, maxY = NInf \<rparr>"

definition boundsWall :: "Wall \<Rightarrow> Bounds \<Rightarrow> Bounds" where
  "boundsWall wall b =
     \<lparr> minX = jmin (jmin (minX b) (Num (px (wall_start wall)))) (Num (px (wall_end wall))),
       maxX = jmax (jmax (maxX b) (Num (px (wall_start wall)))) (Num (px (wall_end wall))),
       minY = jmin (jmin (minY b) (Num (py (wall_start wall)))) (Num (py (wall_end wall))),
       maxY = jmax (jmax (maxY b) (Num (py (wall_start wall)))) (Num (py (wall_end wall))) \<rparr>"

definition boundsPoint :: "Point \<Rightarrow> Bounds \<Rightarrow> Bounds" where
  "boundsPoint point b =
     \<lparr> minX = jmin (minX b) (Num (px point)),
       maxX = jmax (maxX b) (Num (px point)),
       minY = jmin (minY b) (Num (py point)),
       maxY = jmax (maxY b) (Num (py point)) \<rparr>"

definition calcBounds :: "FloorPlan \<Rightarrow> Bounds" where
  "calcBounds floorPlan =
     fold (\<lambda>room. fold boundsPoint (room_points room)) (rooms floorPlan)
       (fold boundsWall (walls floorPlan) initialBounds)"

text \<open>
  The expression \<open>(v - (minX + maxX) / 2) * 0.1 * scale\<close> (and the same with
  \<open>minY\<close>, \<open>maxY\<close>), which the converter writes out for every entity.
\<close>

definition sceneX :: "Bounds \<Rightarrow> real \<Rightarrow> real \<Rightarrow> jsnum" where
  "sceneX b scale v =
     jmul (jmul (jsub (Num v) (jdiv (jadd (minX b) (maxX b)) (Num 2))) (Num 0.1)) (Num scale)"

definition sceneZ :: "Bounds \<Rightarrow> real \<Rightarrow> real \<Rightarrow> jsnum" where
  "sceneZ b scale v =
     jmul (jmul (jsub (Num v) (jdiv (jadd (minY b) (maxY b)) (Num 2))) (Num 0.1)) (Num scale)"

definition wallMesh :: "Bounds \<Rightarrow> real \<Rightarrow> Wall \<Rightarrow> Mesh" where
  "wallMesh b scale wall =
     (let dx = px (wall_end wall) - px (wall_start wall);
          dy = py (wall_end wall) - py (wall_start wall);
          length = sqrt (dx * dx + dy * dy);
          angle = atan2 dy dx;
          centerX = (px (wall_start wall) + px (wall_end wall)) / 2;
          centerY = (py (wall_start wall) + py (wall_end wall)) / 2;
          x = sceneX b scale centerX;
          z = sceneZ b scale centerY;
          wallHeight = (if wall_height wall = 0 then 2.7 else wall_height wall);
          geometry = BoxGeometry (length * 0.1 * scale) wallHeight (wall_thickness wall * 0.1 * scale);
          material =
            (if truthy (wall_texture wall)
             then \<lparr> mat_map = Some \<lparr> tex_url = the (wall_texture wall),
                                      tex_wrapS = RepeatWrapping, tex_wrapT = RepeatWrapping,
                                      tex_repeat = (length * 0.1 * scale / 2, wallHeight / 2) \<rparr>,
                    mat_color = None, mat_roughness = 0.8, mat_metalness = 0.2,
                    mat_side = FrontSide, mat_transparent = False, mat_opacity = 1 \<rparr>
             else \<lparr> mat_map = None,
                    mat_color = Some (ColorHex 16119285), mat_roughness = 0.8, mat_metalness = 0.2,
                    mat_side = FrontSide, mat_transparent = False, mat_opacity = 1 \<rparr>)
      in \<lparr> mesh_geometry = geometry, mesh_material = material,
           mesh_position = (x, Num (wallHeight / 2), z),
           mesh_rotation = Some (0, angle, 0),
           mesh_type = Mesh_wall, mesh_id = wall_id wall, mesh_modelUrl = None \<rparr>)"

text \<open>The outline of a room: \<open>moveTo\<close> for the first vertex, \<open>lineTo\<close> for the others.\<close>

definition roomShape :: "Bounds \<Rightarrow> real \<Rightarrow> Point list \<Rightarrow> PathCommand list" where
  "roomShape b scale points =
     (case points of
        [] \<Rightarrow> []
      | p # ps \<Rightarrow>
          MoveTo (sceneX b scale (px p)) (sceneZ b scale (py p))
          # map (\<lambda>q. LineTo (sceneX b scale (px q)) (sceneZ b scale (py q))) ps)
     @ [ClosePath]"

definition roomMeshes :: "Bounds \<Rightarrow> real \<Rightarrow> Room \<Rightarrow> Mesh list" where
  "roomMeshes b scale room =
     (if length (room_points room) < 3 then []
      else
        let shape = roomShape b scale (room_points room);
            floorMaterial =
              (if truthy (room_floorTexture room)
               then \<lparr> mat_map = Some \<lparr> tex_url = the (room_floorTexture room),
                                        tex_wrapS = RepeatWrapping, tex_wrapT = RepeatWrapping,
                                        tex_repeat = (4, 4) \<rparr>,
                      mat_color = None, mat_roughness = 0.9, mat_metalness = 0.1,
                      mat_side = DoubleSide, mat_transparent = False, mat_opacity = 1 \<rparr>
               else \<lparr> mat_map = None,
                      mat_color = Some (if room_color room \<noteq> [] then ColorString (room_color room)
                                        else ColorHex 14938877),
                      mat_roughness = 0.9, mat_metalness = 0.1,
                      mat_side = DoubleSide, mat_transparent = False, mat_opacity = 1 \<rparr>);
            ceilingMaterial =
              \<lparr> mat_map = None, mat_color = Some (ColorHex 16777215),
                mat_roughness = 0.7, mat_metalness = 0.1,
                mat_side = DoubleSide, mat_transparent = False, mat_opacity = 1 \<rparr>
        in [ \<lparr> mesh_geometry = ShapeGeometry shape, mesh_material = floorMaterial,
               mesh_position = (Num 0, Num 0.01, Num 0),
               mesh_rotation = Some (- pi / 2, 0, 0),
               mesh_type = Mesh_floor, mesh_id = room_id room, mesh_modelUrl = None \<rparr>,
             \<lparr> mesh_geometry = ShapeGeometry shape, mesh_material = ceilingMaterial,
               mesh_position = (Num 0, Num 2.7, Num 0),
               mesh_rotation = Some (- pi / 2, 0, 0),
               mesh_type = Mesh_ceiling, mesh_id = room_id room @ ''-ceiling'',
               mesh_modelUrl = None \<rparr> ])"

definition doorMesh :: "Bounds \<Rightarrow> real \<Rightarrow> Door \<Rightarrow> Mesh" where
  "doorMesh b scale door =
     (let x = sceneX b scale (px (door_position door));
          z = sceneZ b scale (py (door_position door))
      in \<lparr> mesh_geometry = BoxGeometry (door_width door * 0.1 * scale) 2.0 0.05,
           mesh_material =
             \<lparr> mat_map = None, mat_color = Some (ColorHex 9127187),
               mat_roughness = 0.7, mat_metalness = 0.3,
               mat_side = FrontSide, mat_transparent = False, mat_opacity = 1 \<rparr>,
           mesh_position = (x, Num 1.0, z),
           mesh_rotation = Some (0, door_angle door, 0),
           mesh_type = Mesh_door, mesh_id = door_id door, mesh_modelUrl = None \<rparr>)"

definition windowMesh :: "Bounds \<Rightarrow> real \<Rightarrow> Window \<Rightarrow> Mesh" where
  "windowMesh b scale window =
     (let x = sceneX b scale (px (window_position window));
          z = sceneZ b scale (py (window_position window))
      in \<lparr> mesh_geometry =
             BoxGeometry (window_width window * 0.1 * scale)
               (if window_height window = 0 then 1.5 else window_height window) 0.05,
           mesh_material =
             \<lparr> mat_map = None, mat_color = Some (ColorHex 8900331),
               mat_roughness = 0.1, mat_metalness = 0.9,
               mat_side = FrontSide, mat_transparent = True, mat_opacity = 0.6 \<rparr>,
           mesh_position = (x, Num 1.5, z),
           mesh_rotation = Some (0, window_angle window, 0),
           mesh_type = Mesh_window, mesh_id = window_id window, mesh_modelUrl = None \<rparr>)"

text \<open>A cabinet gives its body and, unless it is an island, a handle.\<close>

definition cabinetMeshes :: "Bounds \<Rightarrow> real \<Rightarrow> Cabinet \<Rightarrow> Mesh list" where
  "cabinetMeshes b scale cabinet =
     (let x = sceneX b scale (px (cabinet_position cabinet));
          z = sceneZ b scale (py (cabinet_position cabinet));
          yPosition = (if cabinet_type cabinet = Cab_wall then 1.8 else cabinet_height cabinet / 2);
          body =
            \<lparr> mesh_geometry =
                BoxGeometry (cabinet_width cabinet * 0.1 * scale) (cabinet_height cabinet)
                  (cabinet_depth cabinet * 0.1 * scale),
              mesh_material =
                \<lparr> mat_map = None, mat_color = Some (ColorString (cabinet_color cabinet)),
                  mat_roughness = 0.6, mat_metalness = 0.4,
                  mat_side = FrontSide, mat_transparent = False, mat_opacity = 1 \<rparr>,
              mesh_position = (x, Num yPosition, z),
              mesh_rotation = Some (0, cabinet_angle cabinet, 0),
              mesh_type = Mesh_cabinet, mesh_id = cabinet_id cabinet, mesh_modelUrl = None \<rparr>
      in body #
         (if cabinet_type cabinet \<noteq> Cab_island
          then
            let handleOffset = cabinet_depth cabinet * 0.1 * scale / 2 + 0.025
            in [ \<lparr> mesh_geometry = CylinderGeometry 0.02 0.02 0.05 8,
                   mesh_material =
                     \<lparr> mat_map = None, mat_color = Some (ColorHex 3355443),
                       mat_roughness = 0.3, mat_metalness = 0.8,
                       mat_side = FrontSide, mat_transparent = False, mat_opacity = 1 \<rparr>,
                   mesh_position = (x, Num yPosition, jadd z (Num handleOffset)),
                   mesh_rotation = Some (pi / 2, 0, cabinet_angle cabinet),
                   mesh_type = Mesh_cabinet, mesh_id = cabinet_id cabinet @ ''-handle'',
                   mesh_modelUrl = None \<rparr> ]
          else []))"

definition modelMesh :: "Bounds \<Rightarrow> real \<Rightarrow> Model3D \<Rightarrow> Mesh" where
  "modelMesh b scale model =
     (let x = sceneX b scale (px (model_position model));
          z = sceneZ b scale (py (model_position model));
          size = 0.5 * model_scale model
      in \<lparr> mesh_geometry = BoxGeometry size size size,
           mesh_material =
             \<lparr> mat_map = None, mat_color = Some (ColorHex 10233776),
               mat_roughness = 0.5, mat_metalness = 0.5,
               mat_side = FrontSide, mat_transparent = True, mat_opacity = 0.7 \<rparr>,
           mesh_position = (x, Num (model_height model + size / 2), z),
           mesh_rotation = Some (0, model_angle model, 0),
           mesh_type = Mesh_model3d, mesh_id = model_id model,
           mesh_modelUrl = Some (model_modelUrl model) \<rparr>)"

text \<open>
  Each \<open>forEach\<close> pushes its meshes onto the one list, in the order of the loops:
  walls, rooms, doors, windows, cabinets, models.
\<close>

definition convertFloorPlanTo3D :: "FloorPlan \<Rightarrow> FloorPlan3DData" where
  "convertFloorPlanTo3D floorPlan =
     (let scale = scaleOrDefault floorPlan / 20;
          b = calcBounds floorPlan
      in \<lparr> meshes =
             map (wallMesh b scale) (walls floorPlan)
             @ concat (map (roomMeshes b scale) (rooms floorPlan))
             @ map (doorMesh b scale) (doors floorPlan)
             @ map (windowMesh b scale) (windows floorPlan)
             @ concat (map (cabinetMeshes b scale) (cabinets floorPlan))
             @ map (modelMesh b scale) (models3D floorPlan),
           bounds = b \<rparr>)"

section \<open>Number formatting\<close>

text \<open>The decimal digits of a natural number, as a template literal prints an index.\<close>

fun string_of_nat :: "nat \<Rightarrow> string" where
  "string_of_nat n =
     (if n < 10 then [''0123456789'' ! n]
      else string_of_nat (n div 10) @ [''0123456789'' ! (n mod 10)])"

declare string_of_nat.simps [simp del]

text \<open>
  \<open>Number.prototype.toFixed\<close> for a non-negative finite value below \<open>10^21\<close>
  (from there on the library switches to exponent notation, which is not modelled): the
  integer \<open>n\<close> nearest to \<open>v * 10^f\<close>, the larger one on a tie, printed with a point
  before its last \<open>f\<close> digits and padded with zeros on the left.
\<close>

definition fixedDigits :: "real \<Rightarrow> nat \<Rightarrow> string" where
  "fixedDigits v f =
     (let n = nat \<lfloor>v * 10 ^ f + 1 / 2\<rfloor>;
          m = string_of_nat n
      in if f \<noteq> 0
         then
           let m2 = (if length m \<le> f then replicate (f + 1 - length m) (CHR ''0'') @ m else m);
               k = length m2
           in take (k - f) m2 @ ''.'' @ drop (k - f) m2
         else m)"

definition toFixed :: "jsnum \<Rightarrow> nat \<Rightarrow> string" where
  "toFixed x f =
     (case x of
        NaN \<Rightarrow> ''NaN''
      | PInf \<Rightarrow> ''Infinity''
      | NInf \<Rightarrow> ''-Infinity''
      | Num v \<Rightarrow> if v < 0 then ''-'' @ fixedDigits (- v) f else fixedDigits v f)"

definition formatMeasurement :: "real \<Rightarrow> real \<Rightarrow> Unit \<Rightarrow> string" where
  "formatMeasurement pixels scale unit =
     (let v = convertPixelsToRealWorld pixels scale unit
      in case unit of
           Feet \<Rightarrow> toFixed v 2 @ '' ft''
         | Inches \<Rightarrow> toFixed v 1 @ '' in''
         | Meters \<Rightarrow> toFixed v 2 @ '' m'')"

section \<open>Automatic measurements (floorplan-utils)\<close>

text \<open>
  Both loops push onto the one list \<open>measurements\<close>; the inner loop of a room runs
  \<open>i\<close> from \<open>0\<close> to \<open>room.points.length - 1\<close>.
\<close>

definition pushWallMeasurement :: "real \<Rightarrow> Unit \<Rightarrow> Wall \<Rightarrow> Measurement list \<Rightarrow> Measurement list" where
  "pushWallMeasurement scale unit wall ms =
     (let dist = distance (wall_start wall) (wall_end wall)
      in ms @ [\<lparr> meas_id = ''measure-wall-'' @ wall_id wall,
                 meas_start = wall_start wall,
                 meas_end = wall_end wall,
                 meas_label = Some (formatMeasurement dist scale unit),
                 meas_visible = True \<rparr>])"

definition pushRoomEdge :: "real \<Rightarrow> Unit \<Rightarrow> Room \<Rightarrow> nat \<Rightarrow> Measurement list \<Rightarrow> Measurement list" where
  "pushRoomEdge scale unit room i ms =
     (let start = room_points room ! i;
          endp = room_points room ! ((i + 1) mod length (room_points room));
          dist = distance start endp
      in ms @ [\<lparr> meas_id = ''measure-room-'' @ room_id room @ ''-'' @ string_of_nat i,
                 meas_start = start,
                 meas_end = endp,
                 meas_label = Some (formatMeasurement dist scale unit),
                 meas_visible = True \<rparr>])"

definition pushRoomMeasurements :: "real \<Rightarrow> Unit \<Rightarrow> Room \<Rightarrow> Measurement list \<Rightarrow> Measurement list" where
  "pushRoomMeasurements scale unit room ms =
     fold (pushRoomEdge scale unit room) [0..<length (room_points room)] ms"

definition calculateAutoMeasurements :: "FloorPlan \<Rightarrow> Measurement list" where
  "calculateAutoMeasurements floorPlan =
     (let scale = scaleOrDefault floorPlan;
          unit = unitOrDefault floorPlan
      in fold (pushRoomMeasurements scale unit) (rooms floorPlan)
           (fold (pushWallMeasurement scale unit) (walls floorPlan) []))"

section \<open>The editor (FloorPlan2DEditor)\<close>

text \<open>
  The component's state.  The plan is a property of the component: a handler receives it
  as an argument and hands a changed plan to \<open>onFloorPlanChange\<close>.
\<close>

record Editor =
  ed_tool :: ToolType
  ed_cabinetType :: CabinetType
  ed_isDragging :: bool
  ed_dragStart :: "Point option"
  ed_currentPoint :: "Point option"
  ed_selectedId :: "string option"
  ed_showGrid :: bool
  ed_gridSize :: real
  ed_panOffset :: Point
  ed_isPanning :: bool
  ed_showMeasurements :: bool
  ed_scaleDistance :: string
  ed_scaleUnit :: Unit

subsection \<open>The measurements that are drawn\<close>

definition measurementsToDraw :: "FloorPlan \<Rightarrow> Measurement list" where
  "measurementsToDraw floorPlan =
     (if 0 < length (measurements floorPlan) then measurements floorPlan
      else calculateAutoMeasurements floorPlan)"

text \<open>The arrows drawn for the measurements: start, end and label of each.\<close>

definition drawMeasurements :: "FloorPlan \<Rightarrow> Editor \<Rightarrow> (Point \<times> Point \<times> string) list" where
  "drawMeasurements floorPlan ed =
     (if ed_showMeasurements ed
      then map (\<lambda>measurement.
                  (meas_start measurement, meas_end measurement,
                   if truthy (meas_label measurement) then the (meas_label measurement)
                   else formatMeasurement (distance (meas_start measurement) (meas_end measurement))
                          (scaleOrDefault floorPlan) (unitOrDefault floorPlan)))
             (filter meas_visible (measurementsToDraw floorPlan))
      else [])"

subsection \<open>Selecting and deleting at a point\<close>

text \<open>
  Each loop of the selection returns the identifier of the first entity that is hit and
  stops; the next loop runs only if nothing was found so far.
\<close>

fun selectPhoto :: "Point \<Rightarrow> PhotoReference list \<Rightarrow> string option" where
  "selectPhoto point [] = None"
| "selectPhoto point (photo # rest) =
     (if px (photo_position photo) \<le> px point
         \<and> px point \<le> px (photo_position photo) + photo_width photo
         \<and> py (photo_position photo) \<le> py point
         \<and> py point \<le> py (photo_position photo) + photo_height photo
      then Some (photo_id photo) else selectPhoto point rest)"

fun selectModel :: "Point \<Rightarrow> Model3D list \<Rightarrow> string option" where
  "selectModel point [] = None"
| "selectModel point (model # rest) =
     (let size = 40 * model_scale model;
          dx = \<bar>px point - px (model_position model)\<bar>;
          dy = \<bar>py point - py (model_position model)\<bar>
      in if dx < size / 2 \<and> dy < size / 2 then Some (model_id model)
         else selectModel point rest)"

fun selectCabinet :: "Point \<Rightarrow> Cabinet list \<Rightarrow> string option" where
  "selectCabinet point [] = None"
| "selectCabinet point (cabinet # rest) =
     (let dx = \<bar>px point - px (cabinet_position cabinet)\<bar>;
          dy = \<bar>py point - py (cabinet_position cabinet)\<bar>
      in if dx < cabinet_width cabinet / 2 \<and> dy < cabinet_depth cabinet / 2
         then Some (cabinet_id cabinet)
         else selectCabinet point rest)"

fun selectWall :: "Point \<Rightarrow> Wall list \<Rightarrow> string option" where
  "selectWall point [] = None"
| "selectWall point (wall # rest) =
     (if pointToLineDistance point (wall_start wall) (wall_end wall) < 10
      then Some (wall_id wall) else selectWall point rest)"

fun selectRoom :: "Point \<Rightarrow> Room list \<Rightarrow> string option" where
  "selectRoom point [] = None"
| "selectRoom point (room # rest) =
     (if isPointInPolygon point (room_points room)
      then Some (room_id room) else selectRoom point rest)"

fun selectDoor :: "Point \<Rightarrow> Door list \<Rightarrow> string option" where
  "selectDoor point [] = None"
| "selectDoor point (door # rest) =
     (if distance point (door_position door) < 20
      then Some (door_id door) else selectDoor point rest)"

fun selectWindow :: "Point \<Rightarrow> Window list \<Rightarrow> string option" where
  "selectWindow point [] = None"
| "selectWindow point (window # rest) =
     (if distance point (window_position window) < 20
      then Some (window_id window) else selectWindow point rest)"

text \<open>The argument of the last \<open>setSelectedId\<close> call of the selection branch.\<close>

definition selectAt :: "FloorPlan \<Rightarrow> Point \<Rightarrow> string option" where
  "selectAt floorPlan point =
     (case selectPhoto point (photos floorPlan) of Some i \<Rightarrow> Some i | None \<Rightarrow>
      case selectModel point (models3D floorPlan) of Some i \<Rightarrow> Some i | None \<Rightarrow>
      case selectCabinet point (cabinets floorPlan) of Some i \<Rightarrow> Some i | None \<Rightarrow>
      case selectWall point (walls floorPlan) of Some i \<Rightarrow> Some i | None \<Rightarrow>
      case selectRoom point (rooms floorPlan) of Some i \<Rightarrow> Some i | None \<Rightarrow>
      case selectDoor point (doors floorPlan) of Some i \<Rightarrow> Some i | None \<Rightarrow>
      selectWindow point (windows floorPlan))"

text \<open>The plan built by the deletion branch: seven filters on a copy of the plan.\<close>

definition deleteAt :: "FloorPlan \<Rightarrow> Point \<Rightarrow> FloorPlan" where
  "deleteAt floorPlan point =
     floorPlan
       \<lparr> photos :=
           filter (\<lambda>photo.
                     \<not> (px (photo_position photo) \<le> px point
                        \<and> px point \<le> px (photo_position photo) + photo_width photo
                        \<and> py (photo_position photo) \<le> py point
                        \<and> py point \<le> py (photo_position photo) + photo_height photo))
             (photos floorPlan),
         models3D :=
           filter (\<lambda>model.
                     let size = 40 * model_scale model;
                         dx = \<bar>px point - px (model_position model)\<bar>;
                         dy = \<bar>py point - py (model_position model)\<bar>
                     in size / 2 \<le> dx \<or> size / 2 \<le> dy)
             (models3D floorPlan),
         cabinets :=
           filter (\<lambda>cabinet.
                     let dx = \<bar>px point - px (cabinet_position cabinet)\<bar>;
                         dy = \<bar>py point - py (cabinet_position cabinet)\<bar>
                     in cabinet_width cabinet / 2 \<le> dx \<or> cabinet_depth cabinet / 2 \<le> dy)
             (cabinets floorPlan),
         walls :=
           filter (\<lambda>wall. 10 \<le> pointToLineDistance point (wall_start wall) (wall_end wall))
             (walls floorPlan),
         rooms := filter (\<lambda>room. \<not> isPointInPolygon point (room_points room)) (rooms floorPlan),
         doors := filter (\<lambda>door. 20 \<le> distance point (door_position door)) (doors floorPlan),
         windows :=
           filter (\<lambda>window. 20 \<le> distance point (window_position window)) (windows floorPlan) \<rparr>"

text \<open>
  \<open>handleMouseDown\<close>, given the point of \<open>getCanvasPoint\<close> and the mouse button:
  the new state and the plan handed to \<open>onFloorPlanChange\<close>, if any.
\<close>

definition handleMouseDown :: "FloorPlan \<Rightarrow> Editor \<Rightarrow> Point \<Rightarrow> int \<Rightarrow> Editor \<times> FloorPlan option" where
  "handleMouseDown floorPlan ed point button =
     (if ed_tool ed = Tool_select \<and> button = 1
      then (ed\<lparr>ed_isPanning := True, ed_dragStart := Some point\<rparr>, None)
      else if ed_tool ed = Tool_select
      then (ed\<lparr>ed_selectedId := selectAt floorPlan point\<rparr>, None)
      else if ed_tool ed = Tool_delete
      then (ed, Some (deleteAt floorPlan point))
      else (ed\<lparr>ed_isDragging := True, ed_dragStart := Some point, ed_currentPoint := Some point\<rparr>,
            None))"

subsection \<open>Scale calibration\<close>

text \<open>
  \<open>handleSetScale\<close>.  The argument \<open>parsed\<close> is the value of
  \<open>parseFloat(scaleDistance)\<close>: \<open>None\<close> when it is \<open>NaN\<close>, otherwise the number
  read (the input field is a number field, so it is finite).  A failure is the message
  of the error notification, after which the handler returns without touching the state
  or the plan; a success is the new state and the plan handed to \<open>onFloorPlanChange\<close>
  (the success notification is not modelled).
\<close>

definition handleSetScale :: "FloorPlan \<Rightarrow> Editor \<Rightarrow> real option \<Rightarrow> string + Editor \<times> FloorPlan" where
  "handleSetScale floorPlan ed parsed =
     (case (ed_dragStart ed, ed_currentPoint ed) of
        (Some dragStart, Some currentPoint) \<Rightarrow>
          if ed_scaleDistance ed = []
          then Inl ''Please draw a measurement line and enter the real-world distance''
          else
            let pixels = distance dragStart currentPoint
            in (case parsed of
                  None \<Rightarrow> Inl ''Please enter a valid distance''
                | Some realWorld \<Rightarrow>
                    if realWorld \<le> 0 then Inl ''Please enter a valid distance''
                    else
                      let meters = (case ed_scaleUnit ed of
                                      Feet \<Rightarrow> realWorld / 3.28084
                                    | Inches \<Rightarrow> realWorld / 39.3701
                                    | Meters \<Rightarrow> realWorld);
                          newScale = pixels / meters;
                          updatedFloorPlan =
                            floorPlan
                              \<lparr> scaleCalibration :=
                                  Some \<lparr> cal_point1 = dragStart, cal_point2 = currentPoint,
                                         cal_realWorldDistance = realWorld,
                                         cal_unit = ed_scaleUnit ed \<rparr>,
                                metadata :=
                                  Some (case metadata floorPlan of
                                          Some m \<Rightarrow> m\<lparr>meta_scale := newScale,
                                                      meta_unit := ed_scaleUnit ed\<rparr>
                                        | None \<Rightarrow>
                                            \<lparr> meta_createdAt = None, meta_updatedAt = None,
                                              meta_scale = newScale,
                                              meta_unit = ed_scaleUnit ed,
                                              meta_showMeasurements = None \<rparr>) \<rparr>
                      in Inr (ed\<lparr>ed_scaleDistance := [], ed_tool := Tool_select\<rparr>,
                              updatedFloorPlan))
      | _ \<Rightarrow> Inl ''Please draw a measurement line and enter the real-world distance'')"

text \<open>The plan the editor works on after a call of \<open>handleSetScale\<close>.\<close>

definition planAfter :: "FloorPlan \<Rightarrow> string + Editor \<times> FloorPlan \<Rightarrow> FloorPlan" where
  "planAfter floorPlan result = (case result of Inl _ \<Rightarrow> floorPlan | Inr (_, updated) \<Rightarrow> updated)"

section \<open>The specification's reading of hit testing\<close>

text \<open>
  Following the specification's words: one proximity predicate per entity type, and the
  entities tested in the order photos, models, cabinets, walls, rooms, doors, windows,
  the first hit being returned.
\<close>

definition photoHit :: "Point \<Rightarrow> PhotoReference \<Rightarrow> bool" where
  "photoHit p photo =
     (px (photo_position photo) \<le> px p \<and> px p \<le> px (photo_position photo) + photo_width photo
      \<and> py (photo_position photo) \<le> py p \<and> py p \<le> py (photo_position photo) + photo_height photo)"

definition modelHit :: "Point \<Rightarrow> Model3D \<Rightarrow> bool" where
  "modelHit p model =
     (\<bar>px p - px (model_position model)\<bar> < 40 * model_scale model / 2
      \<and> \<bar>py p - py (model_position model)\<bar> < 40 * model_scale model / 2)"

definition cabinetHit :: "Point \<Rightarrow> Cabinet \<Rightarrow> bool" where
  "cabinetHit p cabinet =
     (\<bar>px p - px (cabinet_position cabinet)\<bar> < cabinet_width cabinet / 2
      \<and> \<bar>py p - py (cabinet_position cabinet)\<bar> < cabinet_depth cabinet / 2)"

definition wallHit :: "Point \<Rightarrow> Wall \<Rightarrow> bool" where
  "wallHit p wall = (pointToLineDistance p (wall_start wall) (wall_end wall) < 10)"

definition roomHit :: "Point \<Rightarrow> Room \<Rightarrow> bool" where
  "roomHit p room = isPointInPolygon p (room_points room)"

definition doorHit :: "Point \<Rightarrow> Door \<Rightarrow> bool" where
  "doorHit p door = (distance p (door_position door) < 20)"

definition windowHit :: "Point \<Rightarrow> Window \<Rightarrow> bool" where
  "windowHit p window = (distance p (window_position window) < 20)"

datatype Entity =
  E_photo PhotoReference
| E_model Model3D
| E_cabinet Cabinet
| E_wall Wall
| E_room Room
| E_door Door
| E_window Window

fun entityHit :: "Point \<Rightarrow> Entity \<Rightarrow> bool" where
  "entityHit p (E_photo e) = photoHit p e"
| "entityHit p (E_model e) = modelHit p e"
| "entityHit p (E_cabinet e) = cabinetHit p e"
| "entityHit p (E_wall e) = wallHit p e"
| "entityHit p (E_room e) = roomHit p e"
| "entityHit p (E_door e) = doorHit p e"
| "entityHit p (E_window e) = windowHit p e"

fun entityId :: "Entity \<Rightarrow> string" where
  "entityId (E_photo e) = photo_id e"
| "entityId (E_model e) = model_id e"
| "entityId (E_cabinet e) = cabinet_id e"
| "entityId (E_wall e) = wall_id e"
| "entityId (E_room e) = room_id e"
| "entityId (E_door e) = door_id e"
| "entityId (E_window e) = window_id e"

definition priorityOrder :: "FloorPlan \<Rightarrow> Entity list" where
  "priorityOrder floorPlan =
     map E_photo (photos floorPlan) @ map E_model (models3D floorPlan)
     @ map E_cabinet (cabinets floorPlan) @ map E_wall (walls floorPlan)
     @ map E_room (rooms floorPlan) @ map E_door (doors floorPlan)
     @ map E_window (windows floorPlan)"

definition hitTest_spec :: "FloorPlan \<Rightarrow> Point \<Rightarrow> string option" where
  "hitTest_spec floorPlan p = map_option entityId (find (entityHit p) (priorityOrder floorPlan))"

section \<open>The specification's reading of calibration and of the automatic measurements\<close>

definition metersOf :: "real \<Rightarrow> Unit \<Rightarrow> real" where
  "metersOf v unit = (case unit of Feet \<Rightarrow> v / 3.28084 | Inches \<Rightarrow> v / 39.3701 | Meters \<Rightarrow> v)"

definition wallMeasurement_spec :: "real \<Rightarrow> Unit \<Rightarrow> Wall \<Rightarrow> Measurement" where
  "wallMeasurement_spec scale unit wall =
     \<lparr> meas_id = ''measure-wall-'' @ wall_id wall,
       meas_start = wall_start wall, meas_end = wall_end wall,
       meas_label = Some (formatMeasurement (distance (wall_start wall) (wall_end wall)) scale unit),
       meas_visible = True \<rparr>"

text \<open>Edge \<open>i\<close> of a polygon runs from vertex \<open>i\<close> to the next one, the last edge back to vertex 0.\<close>

definition edgeMeasurement_spec :: "real \<Rightarrow> Unit \<Rightarrow> Room \<Rightarrow> nat \<Rightarrow> Measurement" where
  "edgeMeasurement_spec scale unit room i =
     (let a = room_points room ! i;
          b = (if Suc i = length (room_points room) then room_points room ! 0
               else room_points room ! Suc i)
      in \<lparr> meas_id = ''measure-room-'' @ room_id room @ ''-'' @ string_of_nat i,
           meas_start = a, meas_end = b,
           meas_label = Some (formatMeasurement (distance a b) scale unit),
           meas_visible = True \<rparr>)"

definition autoMeasurements_spec :: "real \<Rightarrow> Unit \<Rightarrow> FloorPlan \<Rightarrow> Measurement list" where
  "autoMeasurements_spec scale unit floorPlan =
     map (wallMeasurement_spec scale unit) (walls floorPlan)
     @ concat (map (\<lambda>room. map (edgeMeasurement_spec scale unit room)
                              [0..<length (room_points room)])
                 (rooms floorPlan))"

section \<open>The specification's reading of the wall projection\<close>

text \<open>
  Following the specification's words: the bounding box is taken over all wall endpoints
  and all room vertices, \<open>K = 0.1 * (metadataScale / 20)\<close>, and a wall gives a box of
  size \<open>(length * K, wallHeight, thickness * K)\<close> at the projected midpoint, raised to
  half its height and turned about the vertical axis by \<open>atan2 dy dx\<close>.
\<close>

definition boundingPoints :: "FloorPlan \<Rightarrow> Point list" where
  "boundingPoints floorPlan =
     concat (map (\<lambda>wall. [wall_start wall, wall_end wall]) (walls floorPlan))
     @ concat (map room_points (rooms floorPlan))"

definition boundsCenter :: "FloorPlan \<Rightarrow> real \<times> real" where
  "boundsCenter floorPlan =
     (let xs = map px (boundingPoints floorPlan); ys = map py (boundingPoints floorPlan)
      in ((Min (set xs) + Max (set xs)) / 2, (Min (set ys) + Max (set ys)) / 2))"

definition projectionK :: "real \<Rightarrow> real" where
  "projectionK metadataScale = 0.1 * (metadataScale / 20)"

definition wallBox_spec ::
  "real \<Rightarrow> real \<times> real \<Rightarrow> Wall
     \<Rightarrow> string \<times> Geometry \<times> (jsnum \<times> jsnum \<times> jsnum) \<times> (real \<times> real \<times> real) option" where
  "wallBox_spec K center wall =
     (let dx = px (wall_end wall) - px (wall_start wall);
          dy = py (wall_end wall) - py (wall_start wall);
          midX = (px (wall_start wall) + px (wall_end wall)) / 2;
          midY = (py (wall_start wall) + py (wall_end wall)) / 2;
          wallHeight = (if wall_height wall = 0 then 2.7 else wall_height wall)
      in (wall_id wall,
          BoxGeometry (distance (wall_start wall) (wall_end wall) * K) wallHeight
            (wall_thickness wall * K),
          (Num ((midX - fst center) * K), Num (wallHeight / 2), Num ((midY - snd center) * K)),
          Some (0, atan2 dy dx, 0)))"

text \<open>The accumulators of the bounding box after a list of values has gone through them.\<close>

definition lowest :: "real list \<Rightarrow> jsnum" where
  "lowest vs = (if vs = [] then PInf else Num (Min (set vs)))"

definition highest :: "real list \<Rightarrow> jsnum" where
  "highest vs = (if vs = [] then NInf else Num (Max (set vs)))"

definition boundsOf :: "Point list \<Rightarrow> Bounds" where
  "boundsOf ps =
     \<lparr> minX = lowest (map px ps), maxX = highest (map px ps),
       minY = lowest (map py ps), maxY = highest (map py ps) \<rparr>"

section \<open>Example plans\<close>

definition plainMetadata :: Metadata where
  "plainMetadata =
     \<lparr> meta_createdAt = Some ''2024-01-01T00:00:00.000Z'',
       meta_updatedAt = Some ''2024-01-01T00:00:00.000Z'',
       meta_scale = 20, meta_unit = Meters, meta_showMeasurements = Some True \<rparr>"

text \<open>The plan of \<open>createDefaultFloorPlan\<close> (the identifier and the time stamps fixed).\<close>

definition defaultPlan :: FloorPlan where
  "defaultPlan =
     \<lparr> fp_id = ''floorplan-0'', fp_name = ''New Floor Plan'',
       walls = [], rooms = [], doors = [], windows = [], cabinets = [], models3D = [],
       photos = [], measurements = [], scaleCalibration = None,
       metadata = Some plainMetadata \<rparr>"

definition wall100 :: Wall where
  "wall100 =
     \<lparr> wall_id = ''w1'', wall_start = \<lparr> px = 0, py = 0 \<rparr>, wall_end = \<lparr> px = 100, py = 0 \<rparr>,
       wall_thickness = 8, wall_height = 2.7, wall_texture = None \<rparr>"

definition door1 :: Door where
  "door1 =
     \<lparr> door_id = ''d1'', door_position = \<lparr> px = 10, py = 20 \<rparr>, door_angle = 0,
       door_width = 40, door_wallId = None \<rparr>"

text \<open>A base cabinet as \<open>createCabinet\<close> builds it, at the given angle.\<close>

definition baseCabinet :: "Point \<Rightarrow> real \<Rightarrow> Cabinet" where
  "baseCabinet position angle =
     \<lparr> cabinet_id = ''c1'', cabinet_type = Cab_base, cabinet_position = position,
       cabinet_angle = angle, cabinet_width = 12, cabinet_depth = 12, cabinet_height = 0.9,
       cabinet_color = ''#8B4513'' \<rparr>"

definition oneWallPlan :: FloorPlan where
  "oneWallPlan = defaultPlan\<lparr>walls := [wall100]\<rparr>"

definition doorOnlyPlan :: FloorPlan where
  "doorOnlyPlan = defaultPlan\<lparr>doors := [door1]\<rparr>"

definition cabinetPlan :: "real \<Rightarrow> FloorPlan" where
  "cabinetPlan angle =
     defaultPlan\<lparr>walls := [wall100], cabinets := [baseCabinet \<lparr> px = 50, py = 0 \<rparr> angle]\<rparr>"

definition squareRoom :: Room where
  "squareRoom =
     \<lparr> room_id = ''r1'', room_name = ''Room'',
       room_points = [\<lparr> px = 0, py = 0 \<rparr>, \<lparr> px = 100, py = 0 \<rparr>, \<lparr> px = 100, py = 100 \<rparr>,
                      \<lparr> px = 0, py = 100 \<rparr>],
       room_color = ''#e3f2fd'', room_floorTexture = None, room_wallTexture = None \<rparr>"

definition window1 :: Window where
  "window1 =
     \<lparr> window_id = ''win1'', window_position = \<lparr> px = 300, py = 400 \<rparr>, window_angle = 0,
       window_width = 40, window_height = 1.5, window_wallId = None \<rparr>"

definition roomWallPlan :: FloorPlan where
  "roomWallPlan =
     defaultPlan\<lparr>walls := [wall100], rooms := [squareRoom], doors := [door1],
                  windows := [window1]\<rparr>"

definition idleEditor :: Editor where
  "idleEditor =
     \<lparr> ed_tool = Tool_select, ed_cabinetType = Cab_base, ed_isDragging = False,
       ed_dragStart = None, ed_currentPoint = None, ed_selectedId = None, ed_showGrid = True,
       ed_gridSize = 20, ed_panOffset = \<lparr> px = 0, py = 0 \<rparr>, ed_isPanning = False,
       ed_showMeasurements = True, ed_scaleDistance = [], ed_scaleUnit = Meters \<rparr>"

definition measuringEditor :: Editor where
  "measuringEditor =
     idleEditor\<lparr>ed_tool := Tool_measure, ed_isDragging := True,
                 ed_dragStart := Some \<lparr> px = 0, py = 0 \<rparr>,
                 ed_currentPoint := Some \<lparr> px = 200, py = 0 \<rparr>,
                 ed_scaleDistance := ''10'', ed_scaleUnit := Feet\<rparr>"

definition segmentRoom :: Room where
  "segmentRoom =
     \<lparr> room_id = ''r2'', room_name = ''Room'',
       room_points = [\<lparr> px = 0, py = 0 \<rparr>, \<lparr> px = 100, py = 0 \<rparr>],
       room_color = ''#e3f2fd'', room_floorTexture = None, room_wallTexture = None \<rparr>"

definition pointRoom :: Room where
  "pointRoom =
     \<lparr> room_id = ''r3'', room_name = ''Room'', room_points = [\<lparr> px = 7, py = 9 \<rparr>],
       room_color = ''#e3f2fd'', room_floorTexture = None, room_wallTexture = None \<rparr>"

definition measuredPlan :: FloorPlan where
  "measuredPlan =
     oneWallPlan\<lparr>measurements :=
       [\<lparr> meas_id = ''measurement-1'', meas_start = \<lparr> px = 0, py = 0 \<rparr>,
          meas_end = \<lparr> px = 0, py = 60 \<rparr>, meas_label = Some ''3.00 m'',
          meas_visible = True \<rparr>]\<rparr>"

section \<open>The specification's reading of grid snapping\<close>

datatype error = InvalidArgument | InvalidInput

text \<open>
  Following the specification's words: each coordinate is rounded to the nearest multiple
  of \<open>gridSize\<close>, and a non-positive \<open>gridSize\<close> fails with \<open>InvalidArgument\<close>.
\<close>

definition snapToGrid_spec :: "Point \<Rightarrow> real \<Rightarrow> error + NumPoint" where
  "snapToGrid_spec point gridSize =
     (if gridSize \<le> 0 then Inl InvalidArgument
      else Inr \<lparr> nx = Num (of_int (round (px point / gridSize)) * gridSize),
                 ny = Num (of_int (round (py point / gridSize)) * gridSize) \<rparr>)"

section \<open>Grid snapping\<close>

lemma nearest_int_multiple:
  fixes v g :: real
  assumes "0 < g"
  shows "\<bar>of_int \<lfloor>v / g + 1 / 2\<rfloor> * g - v\<bar> \<le> \<bar>of_int m * g - v\<bar>"
proof -
  define k where "k = \<lfloor>v / g + 1 / 2\<rfloor>"
  have k1: "of_int k \<le> v / g + 1 / 2" and k2: "v / g + 1 / 2 < of_int k + 1"
    unfolding k_def by linarith+
  have near: "\<bar>of_int k - v / g\<bar> \<le> 1 / 2"
    using k1 k2 by linarith
  have far: "\<bar>of_int k - v / g\<bar> \<le> \<bar>of_int m - v / g\<bar>"
  proof (cases "m = k")
    case True
    then show ?thesis by simp
  next
    case False
    then have "m \<le> k - 1 \<or> k + 1 \<le> m" by linarith
    then have "of_int m \<le> (of_int k :: real) - 1 \<or> (of_int k :: real) + 1 \<le> of_int m"
      by (metis of_int_1 of_int_add of_int_diff of_int_le_iff)
    then show ?thesis using k1 k2 by linarith
  qed
  have scale: "\<bar>of_int n * g - v\<bar> = \<bar>of_int n - v / g\<bar> * g" for n :: int
  proof -
    have "of_int n * g - v = (of_int n - v / g) * g"
      using assms by (simp add: field_simps)
    then show ?thesis using assms by (simp add: abs_mult)
  qed
  show ?thesis
    unfolding k_def [symmetric] scale
    using far assms by (simp add: mult_right_mono)
qed

text \<open>
  C6 (amended).  For a positive \<open>gridSize\<close>, \<open>snapToGrid\<close> returns the point whose
  coordinates are integer multiples of \<open>gridSize\<close>, each one as close to the input
  coordinate as any multiple is.  The function has no error result at all.
\<close>

theorem snapToGrid_nearest_multiple:
  assumes "0 < g"
  shows "\<exists>kx ky :: int.
           snapToGrid p g = \<lparr> nx = Num (of_int kx * g), ny = Num (of_int ky * g) \<rparr>
         \<and> (\<forall>m :: int. \<bar>of_int kx * g - px p\<bar> \<le> \<bar>of_int m * g - px p\<bar>)
         \<and> (\<forall>m :: int. \<bar>of_int ky * g - py p\<bar> \<le> \<bar>of_int m * g - py p\<bar>)"
proof (intro exI conjI allI)
  show "snapToGrid p g =
          \<lparr> nx = Num (of_int \<lfloor>px p / g + 1 / 2\<rfloor> * g), ny = Num (of_int \<lfloor>py p / g + 1 / 2\<rfloor> * g) \<rparr>"
    using assms by (simp add: snapToGrid_def)
  show "\<bar>of_int \<lfloor>px p / g + 1 / 2\<rfloor> * g - px p\<bar> \<le> \<bar>of_int m * g - px p\<bar>" for m
    using assms by (rule nearest_int_multiple)
  show "\<bar>of_int \<lfloor>py p / g + 1 / 2\<rfloor> * g - py p\<bar> \<le> \<bar>of_int m * g - py p\<bar>" for m
    using assms by (rule nearest_int_multiple)
qed

theorem snapToGrid_nearest_multiple_witness:
  "(0::real) < 20
   \<and> (\<exists>kx ky :: int.
         snapToGrid \<lparr> px = 33, py = 50 \<rparr> 20 = \<lparr> nx = Num (of_int kx * 20), ny = Num (of_int ky * 20) \<rparr>
       \<and> (\<forall>m :: int. \<bar>of_int kx * 20 - px \<lparr> px = 33, py = 50 \<rparr>\<bar> \<le> \<bar>of_int m * 20 - px \<lparr> px = 33, py = 50 \<rparr>\<bar>)
       \<and> (\<forall>m :: int. \<bar>of_int ky * 20 - py \<lparr> px = 33, py = 50 \<rparr>\<bar> \<le> \<bar>of_int m * 20 - py \<lparr> px = 33, py = 50 \<rparr>\<bar>))"
proof -
  have pos: "(0::real) < 20" by simp
  from snapToGrid_nearest_multiple [OF pos, of "\<lparr> px = 33, py = 50 \<rparr>"] pos
  show ?thesis by blast
qed

text \<open>
  C6 (as stated) fails: with \<open>gridSize = -20\<close> the specification's reading is the
  error \<open>InvalidArgument\<close>, while the code returns the point \<open>(20, 40)\<close> for
  \<open>(30, 50)\<close>.
\<close>

theorem snapToGrid_no_error_counterexample:
  "snapToGrid_spec \<lparr> px = 30, py = 50 \<rparr> (- 20) = Inl InvalidArgument
   \<and> snapToGrid \<lparr> px = 30, py = 50 \<rparr> (- 20) = \<lparr> nx = Num 20, ny = Num 40 \<rparr>
   \<and> Inr (snapToGrid \<lparr> px = 30, py = 50 \<rparr> (- 20)) \<noteq> snapToGrid_spec \<lparr> px = 30, py = 50 \<rparr> (- 20)"
proof -
  have fx: "\<lfloor>- (3 / 2) + 1 / 2 :: real\<rfloor> = - 1" by linarith
  have fy: "\<lfloor>- (5 / 2) + 1 / 2 :: real\<rfloor> = - 2" by linarith
  show ?thesis
    by (simp add: snapToGrid_def snapToGrid_spec_def fx fy)
qed

section \<open>Unit conversion\<close>

text \<open>
  C8.  For every value, every positive scale and each of the three units, converting a
  real-world length to pixels and back gives the value again (over the reals the round
  trip is exact).
\<close>

theorem convert_round_trip:
  assumes "0 < scale"
  shows "convertPixelsToRealWorld (convertRealWorldToPixels v scale unit) scale unit = Num v"
  using assms
  by (cases unit) (simp_all add: convertPixelsToRealWorld_def convertRealWorldToPixels_def)

theorem convert_round_trip_witness:
  "(0::real) < 20
   \<and> convertPixelsToRealWorld (convertRealWorldToPixels 10 20 Feet) 20 Feet = Num 10"
proof -
  have pos: "(0::real) < 20" by simp
  from convert_round_trip [OF pos, of 10 Feet] pos show ?thesis by simp
qed

section \<open>The bounding box of the projection\<close>

lemma lowest_snoc: "jmin (lowest vs) (Num v) = lowest (vs @ [v])"
  by (cases "vs = []") (simp_all add: lowest_def min.commute)

lemma highest_snoc: "jmax (highest vs) (Num v) = highest (vs @ [v])"
  by (cases "vs = []") (simp_all add: highest_def max.commute)

lemma boundsPoint_boundsOf: "boundsPoint p (boundsOf ps) = boundsOf (ps @ [p])"
  by (simp add: boundsPoint_def boundsOf_def lowest_snoc highest_snoc)

lemma boundsWall_boundsOf:
  "boundsWall w (boundsOf ps) = boundsOf (ps @ [wall_start w, wall_end w])"
proof -
  have "boundsWall w (boundsOf ps)
          = boundsPoint (wall_end w) (boundsPoint (wall_start w) (boundsOf ps))"
    by (simp add: boundsWall_def boundsPoint_def)
  then show ?thesis by (simp add: boundsPoint_boundsOf)
qed

lemma fold_boundsWall:
  "fold boundsWall ws (boundsOf ps)
     = boundsOf (ps @ concat (map (\<lambda>wall. [wall_start wall, wall_end wall]) ws))"
  by (induction ws arbitrary: ps) (simp_all add: boundsWall_boundsOf)

lemma fold_boundsPoint: "fold boundsPoint qs (boundsOf ps) = boundsOf (ps @ qs)"
  by (induction qs arbitrary: ps) (simp_all add: boundsPoint_boundsOf)

lemma fold_rooms_bounds:
  "fold (\<lambda>room. fold boundsPoint (room_points room)) rs (boundsOf ps)
     = boundsOf (ps @ concat (map room_points rs))"
  by (induction rs arbitrary: ps) (simp_all add: fold_boundsPoint)

lemma calcBounds_boundsOf: "calcBounds fp = boundsOf (boundingPoints fp)"
proof -
  have i: "initialBounds = boundsOf []"
    by (simp add: initialBounds_def boundsOf_def lowest_def highest_def)
  show ?thesis
    unfolding calcBounds_def boundingPoints_def i fold_boundsWall fold_rooms_bounds
    by simp
qed

lemma sceneX_finite:
  assumes "ps \<noteq> []"
  shows "sceneX (boundsOf ps) s v
           = Num ((v - (Min (set (map px ps)) + Max (set (map px ps))) / 2) * 0.1 * s)"
  using assms by (simp add: sceneX_def boundsOf_def lowest_def highest_def jsub_def)

lemma sceneZ_finite:
  assumes "ps \<noteq> []"
  shows "sceneZ (boundsOf ps) s v
           = Num ((v - (Min (set (map py ps)) + Max (set (map py ps))) / 2) * 0.1 * s)"
  using assms by (simp add: sceneZ_def boundsOf_def lowest_def highest_def jsub_def)

section \<open>Walls in the projection\<close>

lemma wallMesh_spec:
  assumes "ps \<noteq> []"
  shows "(mesh_id (wallMesh (boundsOf ps) (sc / 20) w),
          mesh_geometry (wallMesh (boundsOf ps) (sc / 20) w),
          mesh_position (wallMesh (boundsOf ps) (sc / 20) w),
          mesh_rotation (wallMesh (boundsOf ps) (sc / 20) w))
         = wallBox_spec (projectionK sc)
             ((Min (set (map px ps)) + Max (set (map px ps))) / 2,
              (Min (set (map py ps)) + Max (set (map py ps))) / 2) w"
  using assms
  by (simp add: wallMesh_def wallBox_spec_def projectionK_def Let_def sceneX_finite sceneZ_finite
      distance_def power2_eq_square)

lemma filter_wall_types:
  "filter (\<lambda>d. mesh_type d = Mesh_wall) (meshes (convertFloorPlanTo3D fp))
     = map (wallMesh (calcBounds fp) (scaleOrDefault fp / 20)) (walls fp)"
proof -
  have w: "filter (\<lambda>d. mesh_type d = Mesh_wall) (map (wallMesh b s) ws) = map (wallMesh b s) ws"
    for b s ws
    by (induction ws) (simp_all add: wallMesh_def Let_def)
  have r: "filter (\<lambda>d. mesh_type d = Mesh_wall) (concat (map (roomMeshes b s) rs)) = []"
    for b s rs
    by (induction rs) (simp_all add: roomMeshes_def Let_def)
  have d: "filter (\<lambda>d. mesh_type d = Mesh_wall) (map (doorMesh b s) ds) = []" for b s ds
    by (induction ds) (simp_all add: doorMesh_def Let_def)
  have wi: "filter (\<lambda>d. mesh_type d = Mesh_wall) (map (windowMesh b s) ds) = []" for b s ds
    by (induction ds) (simp_all add: windowMesh_def Let_def)
  have c: "filter (\<lambda>d. mesh_type d = Mesh_wall) (concat (map (cabinetMeshes b s) cs)) = []"
    for b s cs
    by (induction cs) (simp_all add: cabinetMeshes_def Let_def)
  have m: "filter (\<lambda>d. mesh_type d = Mesh_wall) (map (modelMesh b s) ms) = []" for b s ms
    by (induction ms) (simp_all add: modelMesh_def Let_def)
  show ?thesis
    by (simp add: convertFloorPlanTo3D_def Let_def w r d wi c m)
qed

lemma sqrt_10000: "sqrt 10000 = 100"
  by (rule real_sqrt_unique) simp_all

text \<open>
  C1.  For a plan whose metadata holds a non-zero scale, the wall descriptors of the
  projection are, in the order of the walls, exactly one per wall: the box of size
  \<open>(length * K, wallHeight, thickness * K)\<close> placed at
  \<open>((midX - centerX) * K, wallHeight / 2, (midY - centerY) * K)\<close> and turned by
  \<open>atan2 dy dx\<close> about the vertical axis, where \<open>K = 0.1 * (scale / 20)\<close> and the
  centre is that of the bounding box of all wall endpoints and room vertices.
\<close>

theorem wall_projection:
  assumes "metadata fp = Some m" and "meta_scale m \<noteq> 0"
  shows "map (\<lambda>d. (mesh_id d, mesh_geometry d, mesh_position d, mesh_rotation d))
           (filter (\<lambda>d. mesh_type d = Mesh_wall) (meshes (convertFloorPlanTo3D fp)))
         = map (wallBox_spec (projectionK (meta_scale m)) (boundsCenter fp)) (walls fp)"
proof (cases "walls fp = []")
  case True
  then show ?thesis by (simp add: filter_wall_types)
next
  case False
  then have ne: "boundingPoints fp \<noteq> []"
    by (cases "walls fp") (simp_all add: boundingPoints_def)
  have sc: "scaleOrDefault fp = meta_scale m"
    using assms by (simp add: scaleOrDefault_def)
  show ?thesis
    unfolding filter_wall_types calcBounds_boundsOf sc
    by (simp add: wallMesh_spec [OF ne] boundsCenter_def Let_def)
qed

theorem wall_projection_witness:
  "metadata oneWallPlan = Some plainMetadata
   \<and> meta_scale plainMetadata \<noteq> 0
   \<and> map (\<lambda>d. (mesh_id d, mesh_geometry d, mesh_position d, mesh_rotation d))
        (filter (\<lambda>d. mesh_type d = Mesh_wall) (meshes (convertFloorPlanTo3D oneWallPlan)))
      = [(''w1'', BoxGeometry 10 2.7 0.8, (Num 0, Num 1.35, Num 0), Some (0, 0, 0))]"
proof -
  have m: "metadata oneWallPlan = Some plainMetadata"
    by (simp add: oneWallPlan_def defaultPlan_def)
  have s: "meta_scale plainMetadata \<noteq> 0"
    by (simp add: plainMetadata_def)
  have c: "boundsCenter oneWallPlan = (50, 0)"
    by (simp add: boundsCenter_def boundingPoints_def oneWallPlan_def defaultPlan_def wall100_def)
  have b: "wallBox_spec (projectionK (meta_scale plainMetadata)) (50, 0) wall100
             = (''w1'', BoxGeometry 10 2.7 0.8, (Num 0, Num 1.35, Num 0), Some (0, 0, 0))"
    by (simp add: wallBox_spec_def projectionK_def plainMetadata_def wall100_def distance_def
        atan2_def sqrt_10000)
  have w: "walls oneWallPlan = [wall100]"
    by (simp add: oneWallPlan_def)
  show ?thesis
    using wall_projection [OF m s] m s by (simp only: c w list.map b simp_thms)
qed

section \<open>A plan without walls and rooms\<close>

lemma empty_bounds_NaN:
  assumes "walls fp = []" and "rooms fp = []"
  shows "sceneX (calcBounds fp) s v = NaN" and "sceneZ (calcBounds fp) s v = NaN"
  using assms
  by (simp_all add: calcBounds_def initialBounds_def sceneX_def sceneZ_def jsub_def)

text \<open>
  C2 (the code at the failing input).  For the default plan with one door at
  \<open>(10, 20)\<close> and neither walls nor rooms, the bounding box stays at its initial
  infinite values, its centre \<open>(Infinity + -Infinity) / 2\<close> is \<open>NaN\<close>, and the door is
  placed at \<open>(NaN, 1, NaN)\<close>, not at \<open>(10 * K, 1, 20 * K) = (1, 1, 2)\<close>.
\<close>

theorem empty_plan_door_position:
  "map mesh_position (meshes (convertFloorPlanTo3D doorOnlyPlan)) = [(NaN, Num 1, NaN)]
   \<and> bounds (convertFloorPlanTo3D doorOnlyPlan)
     = \<lparr> minX = PInf, maxX = NInf, minY = PInf, maxY = NInf \<rparr>
   \<and> (NaN, Num 1, NaN)
     \<noteq> (Num (px (door_position door1) * projectionK 20), Num 1,
         Num (py (door_position door1) * projectionK 20))"
  by (simp add: convertFloorPlanTo3D_def calcBounds_def initialBounds_def doorOnlyPlan_def
      defaultPlan_def doorMesh_def sceneX_def sceneZ_def jsub_def door1_def Let_def)

section \<open>Cabinet handles\<close>

lemma cabinet_mesh_ids:
  "map mesh_id (cabinetMeshes b s c)
     = (if cabinet_type c = Cab_island then [cabinet_id c]
        else [cabinet_id c, cabinet_id c @ ''-handle''])"
  by (simp add: cabinetMeshes_def Let_def)

lemma cabinet_positions_angle_free:
  "map mesh_position (cabinetMeshes b s (c\<lparr>cabinet_angle := t\<rparr>))
     = map mesh_position (cabinetMeshes b s c)"
  by (simp add: cabinetMeshes_def Let_def)

text \<open>
  C9 (the code at the failing input).  A base cabinet of depth 12 at the centre of the
  plan, turned by \<open>pi / 2\<close>, gets its handle at \<open>(0, 0.45, 0.625)\<close>: the offset
  \<open>0.625\<close> is added to the scene's \<open>z\<close> coordinate whatever the angle, exactly as
  for the angle \<open>0\<close>.  Along the cabinet's own depth axis, which the rotation about
  the vertical axis takes to \<open>(sin angle, 0, cos angle)\<close>, the handle would be at
  \<open>(0.625, 0.45, 0)\<close>.
\<close>

theorem handle_offset_ignores_angle:
  "map mesh_position
     (filter (\<lambda>d. mesh_id d = ''c1-handle'') (meshes (convertFloorPlanTo3D (cabinetPlan (pi / 2)))))
     = [(Num 0, Num 0.45, Num 0.625)]
   \<and> map mesh_position
     (filter (\<lambda>d. mesh_id d = ''c1-handle'') (meshes (convertFloorPlanTo3D (cabinetPlan 0))))
     = [(Num 0, Num 0.45, Num 0.625)]
   \<and> (Num 0, Num 0.45, Num 0.625)
       \<noteq> (Num (0 + 0.625 * sin (pi / 2)), Num 0.45, Num (0 + 0.625 * cos (pi / 2)))"
proof -
  have b: "calcBounds (cabinetPlan a)
            = \<lparr> minX = Num 0, maxX = Num 100, minY = Num 0, maxY = Num 0 \<rparr>" for a
    by (simp add: cabinetPlan_def calcBounds_def initialBounds_def boundsWall_def defaultPlan_def
        wall100_def)
  have s: "scaleOrDefault (cabinetPlan a) = 20" for a
    by (simp add: cabinetPlan_def scaleOrDefault_def defaultPlan_def plainMetadata_def)
  have f: "walls (cabinetPlan a) = [wall100]" "rooms (cabinetPlan a) = []"
    "doors (cabinetPlan a) = []" "windows (cabinetPlan a) = []" "models3D (cabinetPlan a) = []"
    "cabinets (cabinetPlan a) = [baseCabinet \<lparr> px = 50, py = 0 \<rparr> a]" for a
    by (simp_all add: cabinetPlan_def defaultPlan_def)
  have w: "mesh_id (wallMesh bb sc wall100) = ''w1''" for bb sc
    by (simp add: wallMesh_def wall100_def Let_def)
  have c: "cabinetMeshes \<lparr> minX = Num 0, maxX = Num 100, minY = Num 0, maxY = Num 0 \<rparr> 1
             (baseCabinet \<lparr> px = 50, py = 0 \<rparr> a)
           = [\<lparr> mesh_geometry = BoxGeometry 1.2 0.9 1.2,
                mesh_material =
                  \<lparr> mat_map = None, mat_color = Some (ColorString ''#8B4513''),
                    mat_roughness = 0.6, mat_metalness = 0.4,
                    mat_side = FrontSide, mat_transparent = False, mat_opacity = 1 \<rparr>,
                mesh_position = (Num 0, Num 0.45, Num 0),
                mesh_rotation = Some (0, a, 0),
                mesh_type = Mesh_cabinet, mesh_id = ''c1'', mesh_modelUrl = None \<rparr>,
              \<lparr> mesh_geometry = CylinderGeometry 0.02 0.02 0.05 8,
                mesh_material =
                  \<lparr> mat_map = None, mat_color = Some (ColorHex 3355443),
                    mat_roughness = 0.3, mat_metalness = 0.8,
                    mat_side = FrontSide, mat_transparent = False, mat_opacity = 1 \<rparr>,
                mesh_position = (Num 0, Num 0.45, Num 0.625),
                mesh_rotation = Some (pi / 2, 0, a),
                mesh_type = Mesh_cabinet, mesh_id = ''c1-handle'', mesh_modelUrl = None \<rparr>]"
    for a
    by (simp add: cabinetMeshes_def baseCabinet_def sceneX_def sceneZ_def jsub_def Let_def)
  show ?thesis
    by (simp add: convertFloorPlanTo3D_def b s f w c Let_def)
qed

section \<open>Selection and deletion at a point\<close>

lemma find_app:
  "find P (xs @ ys) = (case find P xs of Some x \<Rightarrow> Some x | None \<Rightarrow> find P ys)"
  by (induction xs) simp_all

lemma selectPhoto_find:
  "selectPhoto p es = map_option entityId (find (entityHit p) (map E_photo es))"
  by (induction es) (simp_all add: photoHit_def)

lemma selectModel_find:
  "selectModel p es = map_option entityId (find (entityHit p) (map E_model es))"
  by (induction es) (simp_all add: modelHit_def Let_def)

lemma selectCabinet_find:
  "selectCabinet p es = map_option entityId (find (entityHit p) (map E_cabinet es))"
  by (induction es) (simp_all add: cabinetHit_def Let_def)

lemma selectWall_find:
  "selectWall p es = map_option entityId (find (entityHit p) (map E_wall es))"
  by (induction es) (simp_all add: wallHit_def)

lemma selectRoom_find:
  "selectRoom p es = map_option entityId (find (entityHit p) (map E_room es))"
  by (induction es) (simp_all add: roomHit_def)

lemma selectDoor_find:
  "selectDoor p es = map_option entityId (find (entityHit p) (map E_door es))"
  by (induction es) (simp_all add: doorHit_def)

lemma selectWindow_find:
  "selectWindow p es = map_option entityId (find (entityHit p) (map E_window es))"
  by (induction es) (simp_all add: windowHit_def)

lemma selectAt_hitTest: "selectAt fp p = hitTest_spec fp p"
  unfolding selectAt_def hitTest_spec_def priorityOrder_def find_app
    selectPhoto_find selectModel_find selectCabinet_find selectWall_find selectRoom_find
    selectDoor_find selectWindow_find
  by (simp split: option.splits)

lemma select_none:
  "(\<forall>e \<in> set es. \<not> entityHit p (f e)) \<Longrightarrow> find (entityHit p) (map f es) = None"
  by (induction es) simp_all

lemma selectWall_some:
  "w \<in> set ws \<Longrightarrow> wallHit p w \<Longrightarrow> \<exists>w' \<in> set ws. wallHit p w' \<and> selectWall p ws = Some (wall_id w')"
  by (induction ws) (auto simp: wallHit_def)

lemma sqrt_25: "sqrt 25 = 5"
  by (rule real_sqrt_unique) simp_all


lemma wallHit_example: "wallHit \<lparr> px = 50, py = 5 \<rparr> wall100"
  by (simp add: wallHit_def pointToLineDistance_def wall100_def Let_def sqrt_25)

lemma roomHit_example: "roomHit \<lparr> px = 50, py = 5 \<rparr> squareRoom"
  by (simp add: roomHit_def isPointInPolygon_def squareRoom_def pip_step_def Let_def upt_rec)

lemma roomWallPlan_fields:
  "photos roomWallPlan = []" "models3D roomWallPlan = []" "cabinets roomWallPlan = []"
  "walls roomWallPlan = [wall100]" "rooms roomWallPlan = [squareRoom]"
  "doors roomWallPlan = [door1]" "windows roomWallPlan = [window1]"
  by (simp_all add: roomWallPlan_def defaultPlan_def)

lemma doorHit_example: "\<not> doorHit \<lparr> px = 50, py = 5 \<rparr> door1"
proof -
  have "20 \<le> sqrt 1825" by (rule real_le_rsqrt) simp
  then show ?thesis by (simp add: doorHit_def distance_def door1_def)
qed

lemma windowHit_example: "\<not> windowHit \<lparr> px = 50, py = 5 \<rparr> window1"
proof -
  have "20 \<le> sqrt 218525" by (rule real_le_rsqrt) simp
  then show ?thesis by (simp add: windowHit_def distance_def window1_def)
qed

text \<open>
  C3.  The selection returns the identifier of the first entity, in the order photos,
  models, cabinets, walls, rooms, doors, windows, whose proximity predicate holds at the
  query point (and nothing if there is none); a click with the select tool and a button
  other than the middle one stores exactly this result.  In particular, when no photo,
  model or cabinet is hit, a point inside a room polygon that is within 10 pixels of a
  wall selects a wall that is hit.
\<close>

theorem select_priority:
  "selectAt fp p = hitTest_spec fp p
   \<and> (ed_tool ed = Tool_select \<and> button \<noteq> 1
        \<longrightarrow> handleMouseDown fp ed p button = (ed\<lparr>ed_selectedId := hitTest_spec fp p\<rparr>, None))
   \<and> ((\<forall>e \<in> set (photos fp). \<not> photoHit p e) \<and> (\<forall>e \<in> set (models3D fp). \<not> modelHit p e)
        \<and> (\<forall>e \<in> set (cabinets fp). \<not> cabinetHit p e)
        \<and> w \<in> set (walls fp) \<and> wallHit p w \<and> r \<in> set (rooms fp) \<and> roomHit p r
        \<longrightarrow> (\<exists>w' \<in> set (walls fp). wallHit p w' \<and> selectAt fp p = Some (wall_id w')))"
proof (intro conjI impI)
  show eq: "selectAt fp p = hitTest_spec fp p" by (rule selectAt_hitTest)
  show "handleMouseDown fp ed p button = (ed\<lparr>ed_selectedId := hitTest_spec fp p\<rparr>, None)"
    if "ed_tool ed = Tool_select \<and> button \<noteq> 1"
    using that by (simp add: handleMouseDown_def eq)
  show "\<exists>w' \<in> set (walls fp). wallHit p w' \<and> selectAt fp p = Some (wall_id w')"
    if h: "(\<forall>e \<in> set (photos fp). \<not> photoHit p e) \<and> (\<forall>e \<in> set (models3D fp). \<not> modelHit p e)
        \<and> (\<forall>e \<in> set (cabinets fp). \<not> cabinetHit p e)
        \<and> w \<in> set (walls fp) \<and> wallHit p w \<and> r \<in> set (rooms fp) \<and> roomHit p r"
  proof -
    have 1: "selectPhoto p (photos fp) = None"
      using h by (simp add: selectPhoto_find select_none)
    have 2: "selectModel p (models3D fp) = None"
      using h by (simp add: selectModel_find select_none)
    have 3: "selectCabinet p (cabinets fp) = None"
      using h by (simp add: selectCabinet_find select_none)
    from h obtain w' where "w' \<in> set (walls fp)" "wallHit p w'"
      "selectWall p (walls fp) = Some (wall_id w')"
      using selectWall_some by blast
    then show ?thesis
      by (auto simp: selectAt_def 1 2 3)
  qed
qed

theorem select_priority_witness:
  "ed_tool idleEditor = Tool_select \<and> (0::int) \<noteq> 1
   \<and> wallHit \<lparr> px = 50, py = 5 \<rparr> wall100 \<and> roomHit \<lparr> px = 50, py = 5 \<rparr> squareRoom
   \<and> selectAt roomWallPlan \<lparr> px = 50, py = 5 \<rparr> = Some ''w1''
   \<and> handleMouseDown roomWallPlan idleEditor \<lparr> px = 50, py = 5 \<rparr> 0
       = (idleEditor\<lparr>ed_selectedId := Some ''w1''\<rparr>, None)"
proof -
  have t: "ed_tool idleEditor = Tool_select \<and> (0::int) \<noteq> 1"
    by (simp add: idleEditor_def)
  note sp = select_priority [of roomWallPlan "\<lparr> px = 50, py = 5 \<rparr>" idleEditor 0 wall100 squareRoom]
  from sp [THEN conjunct2, THEN conjunct2] wallHit_example roomHit_example
  have s: "selectAt roomWallPlan \<lparr> px = 50, py = 5 \<rparr> = Some ''w1''"
    by (simp add: roomWallPlan_fields wall100_def)
  from sp [THEN conjunct2, THEN conjunct1] t s [unfolded sp [THEN conjunct1]]
  have "handleMouseDown roomWallPlan idleEditor \<lparr> px = 50, py = 5 \<rparr> 0
       = (idleEditor\<lparr>ed_selectedId := Some ''w1''\<rparr>, None)"
    by simp
  with t s wallHit_example roomHit_example show ?thesis by simp
qed


text \<open>
  C5.  The deletion keeps, in every one of the seven collections, exactly the entities
  whose proximity predicate (the one of the selection) fails at the query point, in their
  order; every entity that is hit is removed, whatever its type, and the measurements are
  not touched.  A click with the delete tool hands this plan to \<open>onFloorPlanChange\<close>.
\<close>

theorem delete_all_matches:
  "deleteAt fp p =
     fp\<lparr> photos := filter (\<lambda>e. \<not> photoHit p e) (photos fp),
         models3D := filter (\<lambda>e. \<not> modelHit p e) (models3D fp),
         cabinets := filter (\<lambda>e. \<not> cabinetHit p e) (cabinets fp),
         walls := filter (\<lambda>e. \<not> wallHit p e) (walls fp),
         rooms := filter (\<lambda>e. \<not> roomHit p e) (rooms fp),
         doors := filter (\<lambda>e. \<not> doorHit p e) (doors fp),
         windows := filter (\<lambda>e. \<not> windowHit p e) (windows fp) \<rparr>
   \<and> priorityOrder (deleteAt fp p) = filter (\<lambda>e. \<not> entityHit p e) (priorityOrder fp)
   \<and> measurements (deleteAt fp p) = measurements fp
   \<and> (ed_tool ed = Tool_delete \<longrightarrow> handleMouseDown fp ed p button = (ed, Some (deleteAt fp p)))"
proof -
  have m: "(\<lambda>model. let size = 40 * model_scale model;
                         dx = \<bar>px p - px (model_position model)\<bar>;
                         dy = \<bar>py p - py (model_position model)\<bar>
                     in size / 2 \<le> dx \<or> size / 2 \<le> dy) = (\<lambda>e. \<not> modelHit p e)"
    by (auto simp: modelHit_def Let_def fun_eq_iff)
  have c: "(\<lambda>cabinet. let dx = \<bar>px p - px (cabinet_position cabinet)\<bar>;
                         dy = \<bar>py p - py (cabinet_position cabinet)\<bar>
                     in cabinet_width cabinet / 2 \<le> dx \<or> cabinet_depth cabinet / 2 \<le> dy)
           = (\<lambda>e. \<not> cabinetHit p e)"
    by (auto simp: cabinetHit_def Let_def fun_eq_iff)
  have w: "(\<lambda>wall. 10 \<le> pointToLineDistance p (wall_start wall) (wall_end wall))
           = (\<lambda>e. \<not> wallHit p e)"
    by (auto simp: wallHit_def fun_eq_iff)
  have d: "(\<lambda>door. 20 \<le> distance p (door_position door)) = (\<lambda>e. \<not> doorHit p e)"
    by (auto simp: doorHit_def fun_eq_iff)
  have wi: "(\<lambda>window. 20 \<le> distance p (window_position window)) = (\<lambda>e. \<not> windowHit p e)"
    by (auto simp: windowHit_def fun_eq_iff)
  have eq: "deleteAt fp p =
     fp\<lparr> photos := filter (\<lambda>e. \<not> photoHit p e) (photos fp),
         models3D := filter (\<lambda>e. \<not> modelHit p e) (models3D fp),
         cabinets := filter (\<lambda>e. \<not> cabinetHit p e) (cabinets fp),
         walls := filter (\<lambda>e. \<not> wallHit p e) (walls fp),
         rooms := filter (\<lambda>e. \<not> roomHit p e) (rooms fp),
         doors := filter (\<lambda>e. \<not> doorHit p e) (doors fp),
         windows := filter (\<lambda>e. \<not> windowHit p e) (windows fp) \<rparr>"
    unfolding deleteAt_def m c w d wi
    by (simp add: photoHit_def [abs_def] roomHit_def [abs_def])
  have po: "priorityOrder (deleteAt fp p) = filter (\<lambda>e. \<not> entityHit p e) (priorityOrder fp)"
    unfolding eq by (simp add: priorityOrder_def filter_map comp_def)
  show ?thesis
    using eq po by (simp add: handleMouseDown_def deleteAt_def)
qed


theorem delete_all_matches_witness:
  "ed_tool (idleEditor\<lparr>ed_tool := Tool_delete\<rparr>) = Tool_delete
   \<and> handleMouseDown roomWallPlan (idleEditor\<lparr>ed_tool := Tool_delete\<rparr>) \<lparr> px = 50, py = 5 \<rparr> 0
       = (idleEditor\<lparr>ed_tool := Tool_delete\<rparr>, Some (roomWallPlan\<lparr>walls := [], rooms := []\<rparr>))"
proof -
  note d = delete_all_matches [of roomWallPlan "\<lparr> px = 50, py = 5 \<rparr>"
      "idleEditor\<lparr>ed_tool := Tool_delete\<rparr>" 0]
  have "deleteAt roomWallPlan \<lparr> px = 50, py = 5 \<rparr> = roomWallPlan\<lparr>walls := [], rooms := []\<rparr>"
    unfolding d [THEN conjunct1]
    using wallHit_example roomHit_example doorHit_example windowHit_example
    by (simp add: roomWallPlan_fields)
  with d [THEN conjunct2, THEN conjunct2, THEN conjunct2] show ?thesis by simp
qed

section \<open>Scale calibration\<close>

lemma sqrt_40000: "sqrt 40000 = 200"
  by (rule real_sqrt_unique) simp_all

text \<open>
  C4.  With a drawn segment from \<open>a\<close> to \<open>b\<close> and a non-empty distance field: if the
  declared length \<open>v\<close> is a number greater than 0, the calibration hands on a plan whose
  metadata has the scale \<open>distance a b / meters\<close>, \<open>meters\<close> being \<open>v / 3.28084\<close>
  for feet, \<open>v / 39.3701\<close> for inches and \<open>v\<close> for meters, and the declared unit; if
  \<open>v\<close> is not a number or is at most 0, the calibration fails with a message and the
  plan, hence its scale, is left as it was.
\<close>

theorem set_scale:
  "(ed_dragStart ed = Some a \<and> ed_currentPoint ed = Some b \<and> ed_scaleDistance ed \<noteq> [] \<and> 0 < v
      \<longrightarrow> (\<exists>ed' fp' m'.
             handleSetScale fp ed (Some v) = Inr (ed', fp')
             \<and> fp' = fp\<lparr> scaleCalibration :=
                             Some \<lparr> cal_point1 = a, cal_point2 = b, cal_realWorldDistance = v,
                                    cal_unit = ed_scaleUnit ed \<rparr>,
                           metadata := Some m' \<rparr>
             \<and> meta_scale m' = distance a b / metersOf v (ed_scaleUnit ed)
             \<and> meta_unit m' = ed_scaleUnit ed))
   \<and> (v \<le> 0 \<longrightarrow>
         (\<exists>msg. handleSetScale fp ed (Some v) = Inl msg)
         \<and> planAfter fp (handleSetScale fp ed (Some v)) = fp)
   \<and> (\<exists>msg. handleSetScale fp ed None = Inl msg)
   \<and> planAfter fp (handleSetScale fp ed None) = fp"
proof (intro conjI impI)
  assume h: "ed_dragStart ed = Some a \<and> ed_currentPoint ed = Some b
               \<and> ed_scaleDistance ed \<noteq> [] \<and> 0 < v"
  define m' where
    "m' = (case metadata fp of
             Some m \<Rightarrow> m\<lparr>meta_scale := distance a b / metersOf v (ed_scaleUnit ed),
                         meta_unit := ed_scaleUnit ed\<rparr>
           | None \<Rightarrow> \<lparr> meta_createdAt = None, meta_updatedAt = None,
                       meta_scale = distance a b / metersOf v (ed_scaleUnit ed),
                       meta_unit = ed_scaleUnit ed, meta_showMeasurements = None \<rparr>)"
  have r: "handleSetScale fp ed (Some v)
             = Inr (ed\<lparr>ed_scaleDistance := [], ed_tool := Tool_select\<rparr>,
                    fp\<lparr> scaleCalibration :=
                           Some \<lparr> cal_point1 = a, cal_point2 = b, cal_realWorldDistance = v,
                                  cal_unit = ed_scaleUnit ed \<rparr>,
                         metadata := Some m' \<rparr>)"
    using h
    by (cases "metadata fp"; cases "ed_scaleUnit ed")
       (simp_all add: handleSetScale_def metersOf_def Let_def m'_def)
  have s: "meta_scale m' = distance a b / metersOf v (ed_scaleUnit ed)"
    and u: "meta_unit m' = ed_scaleUnit ed"
    by (simp_all add: m'_def split: option.splits)
  from r s u
  show "\<exists>ed' fp' m'.
          handleSetScale fp ed (Some v) = Inr (ed', fp')
          \<and> fp' = fp\<lparr> scaleCalibration :=
                          Some \<lparr> cal_point1 = a, cal_point2 = b, cal_realWorldDistance = v,
                                 cal_unit = ed_scaleUnit ed \<rparr>,
                        metadata := Some m' \<rparr>
          \<and> meta_scale m' = distance a b / metersOf v (ed_scaleUnit ed)
          \<and> meta_unit m' = ed_scaleUnit ed"
    by blast
next
  assume "v \<le> 0"
  then show "\<exists>msg. handleSetScale fp ed (Some v) = Inl msg"
    by (simp add: handleSetScale_def Let_def split: option.splits)
next
  assume "v \<le> 0"
  then show "planAfter fp (handleSetScale fp ed (Some v)) = fp"
    by (simp add: handleSetScale_def planAfter_def Let_def split: option.splits)
next
  show "\<exists>msg. handleSetScale fp ed None = Inl msg"
    by (simp add: handleSetScale_def Let_def split: option.splits)
next
  show "planAfter fp (handleSetScale fp ed None) = fp"
    by (simp add: handleSetScale_def planAfter_def Let_def split: option.splits)
qed

theorem set_scale_witness:
  "ed_dragStart measuringEditor = Some \<lparr> px = 0, py = 0 \<rparr>
   \<and> ed_currentPoint measuringEditor = Some \<lparr> px = 200, py = 0 \<rparr>
   \<and> ed_scaleDistance measuringEditor \<noteq> []
   \<and> (0::real) < 10
   \<and> (\<exists>ed' fp' m'. handleSetScale defaultPlan measuringEditor (Some 10) = Inr (ed', fp')
         \<and> metadata fp' = Some m' \<and> meta_scale m' = 65.6168 \<and> meta_unit m' = Feet)
   \<and> (- 1::real) \<le> 0
   \<and> planAfter defaultPlan (handleSetScale defaultPlan measuringEditor (Some (- 1))) = defaultPlan"
proof -
  have a: "ed_dragStart measuringEditor = Some \<lparr> px = 0, py = 0 \<rparr>"
    and b: "ed_currentPoint measuringEditor = Some \<lparr> px = 200, py = 0 \<rparr>"
    and c: "ed_scaleDistance measuringEditor \<noteq> []"
    and u: "ed_scaleUnit measuringEditor = Feet"
    by (simp_all add: measuringEditor_def idleEditor_def)
  have d: "distance \<lparr> px = 0, py = 0 \<rparr> \<lparr> px = 200, py = 0 \<rparr> / metersOf 10 Feet = 65.6168"
    by (simp add: distance_def metersOf_def sqrt_40000)
  have pos: "(0::real) < 10" by simp
  note ok = set_scale [where ed = measuringEditor and v = 10 and fp = defaultPlan,
      THEN conjunct1, rule_format, OF conjI [OF a conjI [OF b conjI [OF c pos]]], unfolded u d]
  note bad = set_scale [where ed = measuringEditor and v = "- 1" and fp = defaultPlan,
      THEN conjunct2, THEN conjunct1]
  from ok obtain ed' fp' m' where
    "handleSetScale defaultPlan measuringEditor (Some 10) = Inr (ed', fp')"
    "metadata fp' = Some m'" "meta_scale m' = 65.6168" "meta_unit m' = Feet"
    by force
  then have "\<exists>ed' fp' m'. handleSetScale defaultPlan measuringEditor (Some 10) = Inr (ed', fp')
         \<and> metadata fp' = Some m' \<and> meta_scale m' = 65.6168 \<and> meta_unit m' = Feet"
    by blast
  with bad a b c show ?thesis by simp
qed

section \<open>Automatic measurements\<close>

lemma fold_pushWall:
  "fold (pushWallMeasurement sc u) ws ms = ms @ map (wallMeasurement_spec sc u) ws"
  by (induction ws arbitrary: ms)
     (simp_all add: pushWallMeasurement_def wallMeasurement_spec_def Let_def)

lemma pushRoomEdge_spec:
  assumes "i < length (room_points r)"
  shows "pushRoomEdge sc u r i ms = ms @ [edgeMeasurement_spec sc u r i]"
proof -
  have "(i + 1) mod length (room_points r) = (if Suc i = length (room_points r) then 0 else Suc i)"
    using assms by (simp add: mod_Suc)
  then show ?thesis
    by (simp add: pushRoomEdge_def edgeMeasurement_spec_def Let_def)
qed

lemma fold_pushRoomEdge:
  assumes "\<forall>i \<in> set is. i < length (room_points r)"
  shows "fold (pushRoomEdge sc u r) is ms = ms @ map (edgeMeasurement_spec sc u r) is"
  using assms by (induction "is" arbitrary: ms) (simp_all add: pushRoomEdge_spec)

lemma pushRoomMeasurements_spec:
  "pushRoomMeasurements sc u r ms
     = ms @ map (edgeMeasurement_spec sc u r) [0..<length (room_points r)]"
  by (simp add: pushRoomMeasurements_def fold_pushRoomEdge)

lemma fold_pushRoom:
  "fold (pushRoomMeasurements sc u) rs ms
     = ms @ concat (map (\<lambda>room. map (edgeMeasurement_spec sc u room)
                                   [0..<length (room_points room)]) rs)"
  by (induction rs arbitrary: ms) (simp_all add: pushRoomMeasurements_spec)

lemma calculateAutoMeasurements_spec:
  "calculateAutoMeasurements fp = autoMeasurements_spec (scaleOrDefault fp) (unitOrDefault fp) fp"
  by (simp add: calculateAutoMeasurements_def autoMeasurements_spec_def Let_def fold_pushWall
      fold_pushRoom)

lemma length_autoMeasurements_spec:
  "length (autoMeasurements_spec sc u fp)
     = length (walls fp) + (\<Sum>room\<leftarrow>rooms fp. length (room_points room))"
  by (simp add: autoMeasurements_spec_def length_concat comp_def)

lemma format_5m: "formatMeasurement 100 20 Meters = ''5.00 m''"
  by (simp add: formatMeasurement_def convertPixelsToRealWorld_def toFixed_def fixedDigits_def
      Let_def string_of_nat.simps)

text \<open>
  C7.  For a plan whose metadata holds a non-zero scale, the generator gives one
  measurement per wall, from its start to its end, followed by one measurement per edge
  of every room polygon, the edge from the last vertex back to the first included; the
  identifiers are \<open>measure-wall-\<close> with the wall's identifier and \<open>measure-room-\<close>
  with the room's identifier and the index of the edge, and every label is
  \<open>formatMeasurement\<close> of the length in pixels under the plan's scale and unit.  What
  is drawn is this list when the plan has no explicit measurements, and the explicit
  measurements otherwise.
\<close>

theorem auto_measurements:
  assumes "metadata fp = Some m" and "meta_scale m \<noteq> 0"
  shows "calculateAutoMeasurements fp = autoMeasurements_spec (meta_scale m) (meta_unit m) fp
       \<and> (measurements fp = [] \<longrightarrow>
            measurementsToDraw fp = autoMeasurements_spec (meta_scale m) (meta_unit m) fp)
       \<and> (measurements fp \<noteq> [] \<longrightarrow> measurementsToDraw fp = measurements fp)
       \<and> length (calculateAutoMeasurements fp)
           = length (walls fp) + (\<Sum>room\<leftarrow>rooms fp. length (room_points room))"
proof -
  have "scaleOrDefault fp = meta_scale m" "unitOrDefault fp = meta_unit m"
    using assms by (simp_all add: scaleOrDefault_def unitOrDefault_def)
  then have c: "calculateAutoMeasurements fp
                  = autoMeasurements_spec (meta_scale m) (meta_unit m) fp"
    by (simp add: calculateAutoMeasurements_spec)
  show ?thesis
    unfolding c by (simp add: measurementsToDraw_def c length_autoMeasurements_spec)
qed

theorem auto_measurements_witness:
  "metadata oneWallPlan = Some plainMetadata \<and> meta_scale plainMetadata \<noteq> 0
   \<and> measurements oneWallPlan = []
   \<and> measurementsToDraw oneWallPlan
       = [\<lparr> meas_id = ''measure-wall-w1'', meas_start = \<lparr> px = 0, py = 0 \<rparr>,
            meas_end = \<lparr> px = 100, py = 0 \<rparr>, meas_label = Some ''5.00 m'',
            meas_visible = True \<rparr>]
   \<and> metadata measuredPlan = Some plainMetadata
   \<and> measurements measuredPlan \<noteq> []
   \<and> measurementsToDraw measuredPlan = measurements measuredPlan"
proof -
  have m: "metadata oneWallPlan = Some plainMetadata"
    and e: "measurements oneWallPlan = []"
    by (simp_all add: oneWallPlan_def defaultPlan_def)
  have s: "meta_scale plainMetadata \<noteq> 0"
    by (simp add: plainMetadata_def)
  have d: "distance \<lparr> px = 0, py = 0 \<rparr> \<lparr> px = 100, py = 0 \<rparr> = 100"
    by (simp add: distance_def sqrt_10000)
  have a: "autoMeasurements_spec (meta_scale plainMetadata) (meta_unit plainMetadata) oneWallPlan
            = [\<lparr> meas_id = ''measure-wall-w1'', meas_start = \<lparr> px = 0, py = 0 \<rparr>,
                 meas_end = \<lparr> px = 100, py = 0 \<rparr>, meas_label = Some ''5.00 m'',
                 meas_visible = True \<rparr>]"
    by (simp add: autoMeasurements_spec_def wallMeasurement_spec_def oneWallPlan_def
        defaultPlan_def plainMetadata_def wall100_def d format_5m)
  have m': "metadata measuredPlan = Some plainMetadata"
    and e': "measurements measuredPlan \<noteq> []"
    by (simp_all add: measuredPlan_def oneWallPlan_def defaultPlan_def)
  from auto_measurements [OF m s, THEN conjunct2, THEN conjunct1]
    auto_measurements [OF m' s, THEN conjunct2, THEN conjunct2, THEN conjunct1]
    e a m s m' e'
  show ?thesis by simp
qed



section \<open>Rooms with fewer than three points\<close>

lemma pip_two: "\<not> isPointInPolygon p [a, b]"
proof -
  have u: "[0..<2] = [0, Suc 0]" by (simp add: upt_rec)
  have e: "(px b - px a) * (py p - py a) / (py b - py a) + px a
         = (px a - px b) * (py p - py b) / (py a - py b) + px b" if "py a \<noteq> py b"
    using that by (simp add: field_simps)
  show ?thesis
    apply (simp add: isPointInPolygon_def pip_step_def Let_def u)
    using e
    apply (cases "py a = py b")
     apply simp
    apply simp
    done
qed

lemma pip_short:
  assumes "length ps < 3"
  shows "\<not> isPointInPolygon p ps"
proof (cases ps)
  case Nil
  then show ?thesis by (simp add: isPointInPolygon_def)
next
  case (Cons a ps1)
  note c1 = this
  show ?thesis
  proof (cases ps1)
    case Nil
    with c1 show ?thesis by (simp add: isPointInPolygon_def pip_step_def Let_def)
  next
    case (Cons b ps2)
    with c1 assms have "ps = [a, b]" by simp
    then show ?thesis by (simp add: pip_two)
  qed
qed


lemma calculateAutoMeasurements_snoc:
  "calculateAutoMeasurements (fp\<lparr>rooms := rooms fp @ [r]\<rparr>)
     = calculateAutoMeasurements fp
       @ map (edgeMeasurement_spec (scaleOrDefault fp) (unitOrDefault fp) r)
           [0..<length (room_points r)]"
  by (simp add: calculateAutoMeasurements_spec autoMeasurements_spec_def scaleOrDefault_def
      unitOrDefault_def)

lemma format_0m: "formatMeasurement 0 20 Meters = ''0.00 m''"
  by (simp add: formatMeasurement_def convertPixelsToRealWorld_def toFixed_def fixedDigits_def
      Let_def string_of_nat.simps)

text \<open>
  C10.  The generator does not skip a room with fewer than three points: a room with the
  two points \<open>a\<close> and \<open>c\<close> adds the two measurements from \<open>a\<close> to \<open>c\<close> and from
  \<open>c\<close> to \<open>a\<close>, and a room with the single point \<open>a\<close> adds one measurement from
  \<open>a\<close> to \<open>a\<close>, of length 0.  Such a room is never hit by the point-in-polygon test
  and gives no floor or ceiling in the projection.
\<close>

theorem short_rooms_measured:
  "(room_points r = [a, c] \<longrightarrow>
      calculateAutoMeasurements (fp\<lparr>rooms := rooms fp @ [r]\<rparr>)
        = calculateAutoMeasurements fp
          @ [\<lparr> meas_id = ''measure-room-'' @ room_id r @ ''-0'', meas_start = a, meas_end = c,
               meas_label = Some (formatMeasurement (distance a c) (scaleOrDefault fp)
                                    (unitOrDefault fp)),
               meas_visible = True \<rparr>,
             \<lparr> meas_id = ''measure-room-'' @ room_id r @ ''-1'', meas_start = c, meas_end = a,
               meas_label = Some (formatMeasurement (distance c a) (scaleOrDefault fp)
                                    (unitOrDefault fp)),
               meas_visible = True \<rparr>])
   \<and> (room_points r = [a] \<longrightarrow>
      calculateAutoMeasurements (fp\<lparr>rooms := rooms fp @ [r]\<rparr>)
        = calculateAutoMeasurements fp
          @ [\<lparr> meas_id = ''measure-room-'' @ room_id r @ ''-0'', meas_start = a, meas_end = a,
               meas_label = Some (formatMeasurement 0 (scaleOrDefault fp) (unitOrDefault fp)),
               meas_visible = True \<rparr>])
   \<and> (length (room_points r) < 3 \<longrightarrow>
        \<not> isPointInPolygon p (room_points r) \<and> roomMeshes bnds s r = [])"
proof (intro conjI impI)
  have u: "[0..<2] = [0, Suc 0]" by (simp add: upt_rec)
  show "calculateAutoMeasurements (fp\<lparr>rooms := rooms fp @ [r]\<rparr>)
        = calculateAutoMeasurements fp
          @ [\<lparr> meas_id = ''measure-room-'' @ room_id r @ ''-0'', meas_start = a, meas_end = c,
               meas_label = Some (formatMeasurement (distance a c) (scaleOrDefault fp)
                                    (unitOrDefault fp)),
               meas_visible = True \<rparr>,
             \<lparr> meas_id = ''measure-room-'' @ room_id r @ ''-1'', meas_start = c, meas_end = a,
               meas_label = Some (formatMeasurement (distance c a) (scaleOrDefault fp)
                                    (unitOrDefault fp)),
               meas_visible = True \<rparr>]"
    if "room_points r = [a, c]"
    using that
    by (simp add: calculateAutoMeasurements_snoc u edgeMeasurement_spec_def Let_def
        string_of_nat.simps)
  show "calculateAutoMeasurements (fp\<lparr>rooms := rooms fp @ [r]\<rparr>)
        = calculateAutoMeasurements fp
          @ [\<lparr> meas_id = ''measure-room-'' @ room_id r @ ''-0'', meas_start = a, meas_end = a,
               meas_label = Some (formatMeasurement 0 (scaleOrDefault fp) (unitOrDefault fp)),
               meas_visible = True \<rparr>]"
    if "room_points r = [a]"
    using that
    by (simp add: calculateAutoMeasurements_snoc edgeMeasurement_spec_def Let_def
        string_of_nat.simps distance_def)
  show "\<not> isPointInPolygon p (room_points r)" if "length (room_points r) < 3"
    using that by (rule pip_short)
  show "roomMeshes bnds s r = []" if "length (room_points r) < 3"
    using that by (simp add: roomMeshes_def)
qed

theorem short_rooms_measured_witness:
  "room_points segmentRoom = [\<lparr> px = 0, py = 0 \<rparr>, \<lparr> px = 100, py = 0 \<rparr>]
   \<and> calculateAutoMeasurements (defaultPlan\<lparr>rooms := rooms defaultPlan @ [segmentRoom]\<rparr>)
       = [\<lparr> meas_id = ''measure-room-r2-0'', meas_start = \<lparr> px = 0, py = 0 \<rparr>,
            meas_end = \<lparr> px = 100, py = 0 \<rparr>, meas_label = Some ''5.00 m'',
            meas_visible = True \<rparr>,
          \<lparr> meas_id = ''measure-room-r2-1'', meas_start = \<lparr> px = 100, py = 0 \<rparr>,
            meas_end = \<lparr> px = 0, py = 0 \<rparr>, meas_label = Some ''5.00 m'',
            meas_visible = True \<rparr>]
   \<and> room_points pointRoom = [\<lparr> px = 7, py = 9 \<rparr>]
   \<and> calculateAutoMeasurements (defaultPlan\<lparr>rooms := rooms defaultPlan @ [pointRoom]\<rparr>)
       = [\<lparr> meas_id = ''measure-room-r3-0'', meas_start = \<lparr> px = 7, py = 9 \<rparr>,
            meas_end = \<lparr> px = 7, py = 9 \<rparr>, meas_label = Some ''0.00 m'',
            meas_visible = True \<rparr>]
   \<and> length (room_points segmentRoom) < 3
   \<and> \<not> isPointInPolygon \<lparr> px = 50, py = 0 \<rparr> (room_points segmentRoom)
   \<and> roomMeshes initialBounds 1 segmentRoom = []"
proof -
  have p2: "room_points segmentRoom = [\<lparr> px = 0, py = 0 \<rparr>, \<lparr> px = 100, py = 0 \<rparr>]"
    and i2: "room_id segmentRoom = ''r2''"
    by (simp_all add: segmentRoom_def)
  have p1: "room_points pointRoom = [\<lparr> px = 7, py = 9 \<rparr>]"
    and i1: "room_id pointRoom = ''r3''"
    by (simp_all add: pointRoom_def)
  have l: "length (room_points segmentRoom) < 3"
    by (simp add: p2)
  have e: "calculateAutoMeasurements defaultPlan = []"
    by (simp add: calculateAutoMeasurements_def defaultPlan_def Let_def)
  have su: "scaleOrDefault defaultPlan = 20" "unitOrDefault defaultPlan = Meters"
    by (simp_all add: scaleOrDefault_def unitOrDefault_def defaultPlan_def plainMetadata_def)
  have d: "distance \<lparr> px = 0, py = 0 \<rparr> \<lparr> px = 100, py = 0 \<rparr> = 100"
    "distance \<lparr> px = 100, py = 0 \<rparr> \<lparr> px = 0, py = 0 \<rparr> = 100"
    by (simp_all add: distance_def sqrt_10000)
  note two = short_rooms_measured [where r = segmentRoom and a = "\<lparr> px = 0, py = 0 \<rparr>"
      and c = "\<lparr> px = 100, py = 0 \<rparr>" and fp = defaultPlan, THEN conjunct1, rule_format, OF p2, unfolded e su d format_5m i2]
  note one = short_rooms_measured [where r = pointRoom and a = "\<lparr> px = 7, py = 9 \<rparr>"
      and fp = defaultPlan,
      THEN conjunct2, THEN conjunct1, rule_format, OF p1, unfolded e su format_0m i1]
  note inert = short_rooms_measured [where r = segmentRoom and p = "\<lparr> px = 50, py = 0 \<rparr>"
      and bnds = initialBounds and s = 1,
      THEN conjunct2, THEN conjunct2, rule_format, OF l]
  from two one inert p2 p1 l show ?thesis by simp
qed


end
